theory Spec2Isabelle
  imports Main
begin

section \<open>Common vocabulary of the two contracts\<close>

text \<open>
  Both contracts are Solidity 0.8 code. An \<open>address\<close> and a \<open>bytes32\<close> are modelled as
  natural numbers, with \<open>0\<close> for \<open>address(0)\<close> and \<open>bytes32(0)\<close>. A \<open>uint256\<close> is a natural
  number; Solidity 0.8 arithmetic is checked, so every addition, subtraction,
  multiplication and division of the source is preceded by the test that makes the EVM
  raise \<open>Panic\<close> (overflow above \<open>max_uint256\<close>, subtraction below zero, division by zero).
  A call that reverts returns \<open>Inl\<close> of the error and no state: the transaction leaves the
  state as it was. A function that is not payable reverts, before anything else and
  without a message, when the call carries value (\<open>nonPayable\<close> below). A function under
  the reentrancy guard reverts when it is called while a guarded function of the same
  contract is running (\<open>nonReentrant\<close> below); apart from that rejection, a call nested
  in a running one is not modelled: every call runs to its end on the state it finds.
\<close>

type_synonym address = nat
type_synonym bytes32 = nat

datatype error = Revert string | Panic | CallFailed

definition max_uint256 :: nat where
  "max_uint256 = 2 ^ 256 - 1"

text \<open>
  Calls that leave the contract (value transfers, ERC20 transfers, mints) are appended to a
  log in the order the source performs them. Whether such a call succeeds is decided by
  the environment (\<open>call_ok\<close>): the collaborators are not trusted.
\<close>

datatype extcall =
    SendValue address nat
  | Erc20Transfer address address nat
  | Erc20TransferFrom address address address nat
  | Erc20Approve address address nat
  | TokenMint address address nat

section \<open>TokenSale\<close>

text \<open>
  Modelled from the spec: the enum \<open>ITGE.State\<close> and the struct \<open>ITGE.TGEInfo\<close>, which
  \<open>interfaces/ITGE.sol\<close> declares and the sources do not include. The enum has the three
  values the contract and the spec name; the struct has the fields \<open>initialize\<close> reads.
\<close>

datatype State = Active | Successful | Failed

record TGEInfo =
  info_metadataURI :: string
  info_price :: nat
  info_hardcap :: nat
  info_softcap :: nat
  info_minPurchase :: nat
  info_maxPurchase :: nat
  info_lockupPercent :: nat
  info_lockupTVL :: nat
  info_lockupDuration :: nat
  info_duration :: nat
  info_reservedTokenPercent :: nat
  info_userWhitelist :: "address list"
  info_tokenWhitelist :: "address list"

text \<open>
  The storage of the contract. \<open>self\<close> is \<open>address(this)\<close>; \<open>owner\<close>, \<open>paused\<close> and
  \<open>initialized\<close> are the storage of the inherited Ownable, Pausable and Initializable;
  \<open>calls\<close> is the log of external calls made so far.
\<close>

record sale =
  self :: address
  owner :: address
  paused :: bool
  initialized :: bool
  token :: address
  metadataURI :: string
  price :: nat
  hardcap :: nat
  softcap :: nat
  minPurchase :: nat
  maxPurchase :: nat
  lockupPercent :: nat
  lockupTVL :: nat
  lockupDuration :: nat
  duration :: nat
  createdAt :: nat
  totalPurchases :: nat
  serviceContract :: address
  tenantId :: bytes32
  totalPurchasesInCurrency :: "address \<Rightarrow> nat"
  totalParticipants :: nat
  hasParticipated :: "address \<Rightarrow> bool"
  immediateTransfer :: bool
  paidAmount :: "address \<Rightarrow> address \<Rightarrow> nat"
  userWhitelist :: "address list"
  tokenWhitelist :: "address list"
  reservedTokenAmount :: nat
  isUserWhitelisted :: "address \<Rightarrow> bool"
  isTokenWhitelisted :: "address \<Rightarrow> bool"
  purchaseOf :: "address \<Rightarrow> nat"
  lockedBalanceOf :: "address \<Rightarrow> nat"
  lockupTVLReached :: bool
  calls :: "extcall list"

text \<open>
  What a call sees of the outside: the sender, the attached value, the block time, and the
  answers of the collaborators. An answer \<open>None\<close> is a call that reverts. The four fee
  queries are made inside \<open>try\<close> statements, where it matters how a call fails: it
  \<open>Returns\<close> a value; or the callee \<open>Reverts\<close>, which the \<open>catch\<close> clause catches; or
  it \<open>Fails\<close> in the caller (there is no code at the address, or the returned data cannot
  be decoded), which no \<open>catch\<close> clause catches, so that the caller reverts. \<open>hasCode\<close>
  says whether there is code at an address: a \<open>mint\<close> inside \<open>try\<close> returns nothing,
  so it fails in the caller only when the token has no code. \<open>reentrant\<close> says that the
  call arrives while a guarded function of the same contract is still running. The first two
  service functions are those of \<open>IServiceContractMinimal\<close>, the next two those of
  \<open>IServiceContract\<close>; \<open>investmentEscrowFactory\<close> is the service contract's and
  \<open>isValidEscrow\<close> the factory's. \<open>balanceOf c a\<close> is what address \<open>a\<close> holds of
  currency \<open>c\<close> (the native asset for \<open>c = 0\<close>), \<open>allowance c a b\<close> what \<open>a\<close> lets
  \<open>b\<close> spend of it, and \<open>hasMinterRole\<close> the token's answer to whether the sale may
  mint. \<open>isAdmin\<close> is the factory's answer to an escrow, and \<open>salePurchaseWithEscrow\<close>
  what the sale returns to an escrow that calls its \<open>purchaseWithEscrow\<close>.
\<close>

datatype 'a answer = Returns 'a | Reverts | Fails

record env =
  msg_sender :: address
  msg_value :: nat
  block_timestamp :: nat
  getCommissionRateMinimal :: "nat \<Rightarrow> nat answer"
  getFeeRecipientMinimal :: "nat \<Rightarrow> address answer"
  getCommissionRate :: "bytes32 \<Rightarrow> nat \<Rightarrow> nat answer"
  getFeeRecipient :: "bytes32 \<Rightarrow> nat \<Rightarrow> address answer"
  investmentEscrowFactory :: "address option"
  isValidEscrow :: "address \<Rightarrow> bool option"
  balanceOf :: "address \<Rightarrow> address \<Rightarrow> nat"
  allowance :: "address \<Rightarrow> address \<Rightarrow> address \<Rightarrow> nat"
  hasMinterRole :: "bool option"
  hasCode :: "address \<Rightarrow> bool"
  reentrant :: bool
  isAdmin :: "address \<Rightarrow> bool option"
  salePurchaseWithEscrow :: "address \<Rightarrow> nat \<Rightarrow> address \<Rightarrow> nat option"
  call_ok :: "extcall \<Rightarrow> bool"

definition extern :: "env \<Rightarrow> extcall \<Rightarrow> sale \<Rightarrow> error + sale" where
  "extern e c s = (if call_ok e c then Inr (s\<lparr>calls := calls s @ [c]\<rparr>) else Inl CallFailed)"

definition nonPayable :: "env \<Rightarrow> error + 'a \<Rightarrow> error + 'a" where
  "nonPayable e body = (if msg_value e \<noteq> 0 then Inl (Revert []) else body)"

definition nonReentrant :: "env \<Rightarrow> error + 'a \<Rightarrow> error + 'a" where
  "nonReentrant e body =
    (if reentrant e then Inl (Revert ''ReentrancyGuard: reentrant call'') else body)"

subsection \<open>Views\<close>

definition state :: "sale \<Rightarrow> env \<Rightarrow> error + State" where
  "state s e =
    (if totalPurchases s \<ge> hardcap s then Inr Successful
     else if createdAt s + duration s > max_uint256 then Inl Panic
     else if block_timestamp e < createdAt s + duration s then Inr Active
     else if totalPurchases s \<ge> softcap s then Inr Successful
     else Inr Failed)"

definition unlockAvailable :: "sale \<Rightarrow> env \<Rightarrow> error + bool" where
  "unlockAvailable s e =
    (if \<not> lockupTVLReached s then Inr False
     else if createdAt s + lockupDuration s > max_uint256 then Inl Panic
     else Inr (block_timestamp e \<ge> createdAt s + lockupDuration s))"

definition getTVL :: "sale \<Rightarrow> error + nat" where
  "getTVL s =
    (if totalPurchases s * price s > max_uint256 then Inl Panic
     else Inr ((totalPurchases s * price s) div 10 ^ 18))"

definition maxPurchaseOf :: "sale \<Rightarrow> address \<Rightarrow> error + nat" where
  "maxPurchaseOf s account =
    (if purchaseOf s account > maxPurchase s then Inl Panic
     else Inr (maxPurchase s - purchaseOf s account))"

subsection \<open>Sequencing of fallible steps\<close>

definition andThen :: "error + 'a \<Rightarrow> ('a \<Rightarrow> error + 'b) \<Rightarrow> error + 'b" where
  "andThen m f = (case m of Inl err \<Rightarrow> Inl err | Inr x \<Rightarrow> f x)"

definition externIf :: "bool \<Rightarrow> env \<Rightarrow> extcall \<Rightarrow> sale \<Rightarrow> error + sale" where
  "externIf b e c s = (if b then extern e c s else Inr s)"

subsection \<open>Platform fee\<close>

text \<open>
  The chain of \<open>try\<close>/\<open>catch\<close> blocks of \<open>calculatePlatformFee\<close>: the minimal interface
  first; when its rate call reverts, the tenant-aware interface (if a tenant is set), then
  the zero-tenant fallbacks. It yields the local \<open>feeRate\<close> and the return variable
  \<open>feeRecipient\<close> as they stand before the final test. A query whose callee reverts is
  caught and counts as no answer; a query that fails in the caller makes the whole
  function revert.
\<close>

definition feeLookup :: "sale \<Rightarrow> env \<Rightarrow> error + (nat \<times> address)" where
  "feeLookup s e =
    (case getCommissionRateMinimal e 1 of
       Fails \<Rightarrow> Inl CallFailed
     | Returns rate \<Rightarrow>
         (case getFeeRecipientMinimal e 1 of
            Fails \<Rightarrow> Inl CallFailed
          | Returns recipient \<Rightarrow> Inr (rate, if recipient \<noteq> 0 then recipient else 0)
          | Reverts \<Rightarrow> Inr (rate, 0))
     | Reverts \<Rightarrow>
         andThen
           (if tenantId s \<noteq> 0 then
              (case getCommissionRate e (tenantId s) 1 of
                 Fails \<Rightarrow> Inl CallFailed
               | Returns rate \<Rightarrow>
                   (case getFeeRecipient e (tenantId s) 1 of
                      Fails \<Rightarrow> Inl CallFailed
                    | Returns recipient \<Rightarrow> Inr (rate, if recipient \<noteq> 0 then recipient else 0)
                    | Reverts \<Rightarrow> Inr (rate, 0))
               | Reverts \<Rightarrow> Inr (0, 0))
            else Inr (0, 0))
           (\<lambda>(feeRate1, feeRecipient1).
             andThen
               (if feeRate1 = 0 then
                  (case getCommissionRate e 0 1 of
                     Fails \<Rightarrow> Inl CallFailed
                   | Returns rate \<Rightarrow> Inr rate
                   | Reverts \<Rightarrow> Inr feeRate1)
                else Inr feeRate1)
               (\<lambda>feeRate2.
                 andThen
                   (if feeRecipient1 = 0 then
                      (case getFeeRecipient e 0 0 of
                         Fails \<Rightarrow> Inl CallFailed
                       | Returns recipient \<Rightarrow> Inr recipient
                       | Reverts \<Rightarrow> Inr feeRecipient1)
                    else Inr feeRecipient1)
                   (\<lambda>feeRecipient2. Inr (feeRate2, feeRecipient2)))))"

definition calculatePlatformFee :: "sale \<Rightarrow> env \<Rightarrow> nat \<Rightarrow> error + (nat \<times> address)" where
  "calculatePlatformFee s e amount =
    (if serviceContract s = 0 then Inr (0, 0)
     else
       andThen (feeLookup s e)
         (\<lambda>(feeRate, feeRecipient).
           if feeRate > 0 \<and> feeRecipient \<noteq> 0 then
             (if amount * feeRate > max_uint256 then Inl Panic
              else Inr ((amount * feeRate) div 10000, feeRecipient))
           else Inr (0, 0)))"

subsection \<open>Token distribution\<close>

text \<open>
  The block that both purchase functions repeat for the unlocked part: transfer what the
  contract holds of the token, mint the shortfall, and fail when the contract may not mint.
\<close>

definition deliver :: "env \<Rightarrow> address \<Rightarrow> nat \<Rightarrow> sale \<Rightarrow> error + sale" where
  "deliver e buyer unlockedAmount s =
    (let contractBalance = balanceOf e (token s) (self s);
         transferAmount = min unlockedAmount contractBalance;
         mintAmount = unlockedAmount - transferAmount
     in andThen (externIf (transferAmount > 0) e (Erc20Transfer (token s) buyer transferAmount) s)
          (\<lambda>s1.
            if mintAmount > 0 then
              (case hasMinterRole e of
                 None \<Rightarrow> Inl CallFailed
               | Some True \<Rightarrow> extern e (TokenMint (token s1) buyer mintAmount) s1
               | Some False \<Rightarrow> Inl (Revert ''TokenSale: missing MINTER_ROLE''))
            else Inr s1))"

definition distribute :: "env \<Rightarrow> address \<Rightarrow> nat \<Rightarrow> sale \<Rightarrow> error + sale" where
  "distribute e buyer amount s =
    (if lockupTVLReached s then deliver e buyer amount s
     else if lockupPercent s > 10000 then Inl Panic
     else if amount * (10000 - lockupPercent s) > max_uint256 then Inl Panic
     else
       (let unlockedAmount = (amount * (10000 - lockupPercent s)) div 10000;
            lockedAmount = amount - unlockedAmount
        in andThen (deliver e buyer unlockedAmount s)
             (\<lambda>s1.
               if lockedAmount > 0 then
                 (if lockedBalanceOf s1 buyer + lockedAmount > max_uint256 then Inl Panic
                  else Inr (s1\<lparr>lockedBalanceOf :=
                              (lockedBalanceOf s1)(buyer := lockedBalanceOf s1 buyer + lockedAmount)\<rparr>))
               else Inr s1)))"

text \<open>
  The calls by which \<open>deliver\<close> hands \<open>n\<close> tokens to a buyer when the contract
  holds \<open>held\<close> of them, and the number of tokens a list of calls moves to an address by
  transfer or mint.
\<close>

definition deliveryCalls :: "address \<Rightarrow> address \<Rightarrow> nat \<Rightarrow> nat \<Rightarrow> extcall list" where
  "deliveryCalls tok buyer n held =
    (if min n held > 0 then [Erc20Transfer tok buyer (min n held)] else [])
    @ (if n - min n held > 0 then [TokenMint tok buyer (n - min n held)] else [])"

fun tokensTo :: "address \<Rightarrow> address \<Rightarrow> extcall list \<Rightarrow> nat" where
  "tokensTo tok buyer [] = 0"
| "tokensTo tok buyer (Erc20Transfer t to n # cs) =
     (if t = tok \<and> to = buyer then n else 0) + tokensTo tok buyer cs"
| "tokensTo tok buyer (TokenMint t to n # cs) =
     (if t = tok \<and> to = buyer then n else 0) + tokensTo tok buyer cs"
| "tokensTo tok buyer (_ # cs) = tokensTo tok buyer cs"

text \<open>First-time-buyer flag and counter, as both purchase functions update them.\<close>

definition noteParticipant :: "address \<Rightarrow> sale \<Rightarrow> error + sale" where
  "noteParticipant buyer s =
    (if \<not> hasParticipated s buyer then
       (if totalParticipants s + 1 > max_uint256 then Inl Panic
        else Inr (s\<lparr>hasParticipated := (hasParticipated s)(buyer := True),
                     totalParticipants := totalParticipants s + 1\<rparr>))
     else Inr s)"

subsection \<open>Direct purchase\<close>

text \<open>
  The two ledger updates of the payment: \<open>paidAmount[who][currency] += n\<close> in vault mode
  and \<open>totalPurchasesInCurrency[currency] += n\<close>.
\<close>

definition recordPaid :: "address \<Rightarrow> address \<Rightarrow> nat \<Rightarrow> sale \<Rightarrow> error + sale" where
  "recordPaid who currency n s =
    (if paidAmount s who currency + n > max_uint256 then Inl Panic
     else Inr (s\<lparr>paidAmount := (paidAmount s)(who :=
            (paidAmount s who)(currency := paidAmount s who currency + n))\<rparr>))"

definition recordCurrencyTotal :: "address \<Rightarrow> nat \<Rightarrow> sale \<Rightarrow> error + sale" where
  "recordCurrencyTotal currency n s =
    (if totalPurchasesInCurrency s currency + n > max_uint256 then Inl Panic
     else Inr (s\<lparr>totalPurchasesInCurrency := (totalPurchasesInCurrency s)(currency :=
            totalPurchasesInCurrency s currency + n)\<rparr>))"

text \<open>
  The payment block of \<open>purchase\<close> (its \<open>if (currency == address(0))\<close> statement): base
  payment, fee on top, fee transfer, then forwarding to the owner or recording in the vault.
\<close>

definition purchasePayment :: "env \<Rightarrow> address \<Rightarrow> nat \<Rightarrow> sale \<Rightarrow> error + sale" where
  "purchasePayment e currency amount s =
    (if amount * price s > max_uint256 then Inl Panic
     else
       (let basePaymentAmount = (amount * price s) div 10 ^ 18 in
        andThen (calculatePlatformFee s e basePaymentAmount)
          (\<lambda>(feeAmount, feeRecipient).
            if basePaymentAmount + feeAmount > max_uint256 then Inl Panic
            else if currency = 0 then
              (if msg_value e \<noteq> basePaymentAmount + feeAmount then Inl (Revert ''Invalid ETH value'')
               else
                 andThen (externIf (feeAmount > 0 \<and> feeRecipient \<noteq> 0) e
                            (SendValue feeRecipient feeAmount) s)
                   (\<lambda>s1.
                     andThen
                       (if immediateTransfer s1 then
                          extern e (SendValue (owner s1) basePaymentAmount) s1
                        else recordPaid (msg_sender e) 0 basePaymentAmount s1)
                       (\<lambda>s2. recordCurrencyTotal 0 basePaymentAmount s2)))
            else
              (if allowance e currency (msg_sender e) (self s) < basePaymentAmount + feeAmount
                 then Inl (Revert ''Insufficient allowance'')
               else
                 andThen (externIf (feeAmount > 0 \<and> feeRecipient \<noteq> 0) e
                            (Erc20TransferFrom currency (msg_sender e) feeRecipient feeAmount) s)
                   (\<lambda>s1.
                     andThen
                       (if immediateTransfer s1 then
                          extern e (Erc20TransferFrom currency (msg_sender e) (owner s1)
                                      basePaymentAmount) s1
                        else
                          andThen (extern e (Erc20TransferFrom currency (msg_sender e) (self s1)
                                               basePaymentAmount) s1)
                            (\<lambda>s1'. recordPaid (msg_sender e) currency basePaymentAmount s1'))
                       (\<lambda>s2. recordCurrencyTotal currency basePaymentAmount s2))))))"

text \<open>
  The limit checks of \<open>purchase\<close> and the ledger update that follows them. The minimum is
  compared with the amount of this call, the maximum with \<open>maxPurchaseOf\<close>. The cost that
  \<open>purchase\<close> computes last, for its event, is the product it has computed first, so it
  cannot fail there.
\<close>

definition purchaseLimits :: "env \<Rightarrow> nat \<Rightarrow> sale \<Rightarrow> error + sale" where
  "purchaseLimits e amount s =
    (if \<not> amount \<ge> minPurchase s then Inl (Revert ''Below min purchase'')
     else
       andThen (maxPurchaseOf s (msg_sender e))
         (\<lambda>maxOf.
           if \<not> amount \<le> maxOf then Inl (Revert ''Exceeds max purchase'')
           else if totalPurchases s + amount > max_uint256 then Inl Panic
           else if \<not> totalPurchases s + amount \<le> hardcap s then Inl (Revert ''Exceeds hardcap'')
           else if purchaseOf s (msg_sender e) + amount > max_uint256 then Inl Panic
           else Inr (s\<lparr>totalPurchases := totalPurchases s + amount,
                        purchaseOf := (purchaseOf s)(msg_sender e :=
                           purchaseOf s (msg_sender e) + amount)\<rparr>)))"

definition purchase :: "env \<Rightarrow> address \<Rightarrow> nat \<Rightarrow> sale \<Rightarrow> error + sale" where
  "purchase e currency amount s =
    nonReentrant e
    (if paused s then Inl (Revert ''Pausable: paused'')
     else if \<not> (userWhitelist s = [] \<or> isUserWhitelisted s (msg_sender e))
       then Inl (Revert ''User not whitelisted'')
     else if \<not> (tokenWhitelist s = [] \<or> isTokenWhitelisted s currency)
       then Inl (Revert ''Currency not whitelisted'')
     else
       andThen (state s e)
         (\<lambda>st.
           if st \<noteq> Active then Inl (Revert ''Invalid state'')
           else
             andThen (purchasePayment e currency amount s)
               (\<lambda>s1. andThen (purchaseLimits e amount s1)
                 (\<lambda>s2. andThen (noteParticipant (msg_sender e) s2)
                   (\<lambda>s3. distribute e (msg_sender e) amount s3)))))"

subsection \<open>Purchase through an escrow\<close>

text \<open>
  The entry checks of \<open>purchaseWithEscrow\<close>: not re-entered, not paused, the caller is an escrow the
  factory vouches for, the currency is whitelisted, the sale is active. The factory is asked
  of the service contract; with no service contract set the call goes to \<open>address(0)\<close>,
  where there is no code, and reverts.
\<close>

definition escrowGate :: "env \<Rightarrow> address \<Rightarrow> sale \<Rightarrow> error + unit" where
  "escrowGate e paymentToken s =
    (if reentrant e then Inl (Revert ''ReentrancyGuard: reentrant call'')
     else if paused s then Inl (Revert ''Pausable: paused'')
     else if serviceContract s = 0 then Inl CallFailed
     else
       (case investmentEscrowFactory e of
          None \<Rightarrow> Inl CallFailed
        | Some escrowFactory \<Rightarrow>
            if escrowFactory = 0 then Inl (Revert ''Invalid escrow'')
            else
              (case isValidEscrow e (msg_sender e) of
                 None \<Rightarrow> Inl CallFailed
               | Some False \<Rightarrow> Inl (Revert ''Invalid escrow'')
               | Some True \<Rightarrow>
                   if \<not> (tokenWhitelist s = [] \<or> isTokenWhitelisted s paymentToken)
                     then Inl (Revert ''Currency not whitelisted'')
                   else
                     andThen (state s e)
                       (\<lambda>st. if st \<noteq> Active then Inl (Revert ''Sale not active'')
                             else Inr ()))))"

text \<open>
  Net payment and token amount: the fee is taken from the payment, the rest must be
  positive, and the tokens sold are \<open>netPayment * 1e18 / price\<close>. For a token payment the
  payment is pulled from the escrow before the division.
\<close>

definition escrowTokenAmount ::
  "env \<Rightarrow> nat \<Rightarrow> address \<Rightarrow> nat \<Rightarrow> sale \<Rightarrow> error + (sale \<times> nat)" where
  "escrowTokenAmount e paymentAmount paymentToken netPayment s =
    andThen
      (if paymentToken = 0 then
         (if msg_value e \<noteq> paymentAmount then Inl (Revert ''Incorrect ETH amount'') else Inr s)
       else
         (if msg_value e \<noteq> 0 then Inl (Revert ''ETH sent for token payment'')
          else extern e (Erc20TransferFrom paymentToken (msg_sender e) (self s) paymentAmount) s))
      (\<lambda>s1.
        if netPayment * 10 ^ 18 > max_uint256 then Inl Panic
        else if price s1 = 0 then Inl Panic
        else Inr (s1, (netPayment * 10 ^ 18) div price s1))"

text \<open>The limit checks of \<open>purchaseWithEscrow\<close>, on the cumulative amounts, and the update.\<close>

definition escrowLimits :: "address \<Rightarrow> address \<Rightarrow> nat \<Rightarrow> nat \<Rightarrow> sale \<Rightarrow> error + sale" where
  "escrowLimits investor paymentToken netPayment tokenAmount s =
    (if purchaseOf s investor + tokenAmount > max_uint256 then Inl Panic
     else
       (let currentPurchase = purchaseOf s investor + tokenAmount in
        if \<not> currentPurchase \<ge> minPurchase s then Inl (Revert ''Below minimum purchase'')
        else if \<not> currentPurchase \<le> maxPurchase s then Inl (Revert ''Exceeds maximum purchase'')
        else if totalPurchases s + tokenAmount > max_uint256 then Inl Panic
        else if \<not> totalPurchases s + tokenAmount \<le> hardcap s then Inl (Revert ''Exceeds hardcap'')
        else if totalPurchasesInCurrency s paymentToken + netPayment > max_uint256 then Inl Panic
        else Inr (s\<lparr>purchaseOf := (purchaseOf s)(investor := currentPurchase),
                     totalPurchases := totalPurchases s + tokenAmount,
                     totalPurchasesInCurrency := (totalPurchasesInCurrency s)(paymentToken :=
                        totalPurchasesInCurrency s paymentToken + netPayment)\<rparr>)))"

text \<open>Fee transfer, then the net payment to the owner or into the vault record.\<close>

definition escrowPayout ::
  "env \<Rightarrow> address \<Rightarrow> address \<Rightarrow> nat \<Rightarrow> address \<Rightarrow> nat \<Rightarrow> sale \<Rightarrow> error + sale" where
  "escrowPayout e investor paymentToken feeAmount feeRecipient netPayment s =
    andThen
      (externIf (feeAmount > 0 \<and> feeRecipient \<noteq> 0) e
         (if paymentToken = 0 then SendValue feeRecipient feeAmount
          else Erc20Transfer paymentToken feeRecipient feeAmount) s)
      (\<lambda>s1.
        if immediateTransfer s1 then
          externIf (netPayment > 0) e
            (if paymentToken = 0 then SendValue (owner s1) netPayment
             else Erc20Transfer paymentToken (owner s1) netPayment) s1
        else recordPaid investor paymentToken netPayment s1)"

definition purchaseWithEscrow ::
  "env \<Rightarrow> address \<Rightarrow> nat \<Rightarrow> address \<Rightarrow> sale \<Rightarrow> error + (sale \<times> nat)" where
  "purchaseWithEscrow e investor paymentAmount paymentToken s =
    andThen (escrowGate e paymentToken s)
      (\<lambda>_. andThen (calculatePlatformFee s e paymentAmount)
        (\<lambda>(feeAmount, feeRecipient).
          if feeAmount > paymentAmount then Inl Panic
          else
            (let netPayment = paymentAmount - feeAmount in
             if \<not> netPayment > 0 then Inl (Revert ''Net payment is zero after fee deduction'')
             else
               andThen (escrowTokenAmount e paymentAmount paymentToken netPayment s)
                 (\<lambda>(s1, tokenAmount).
                   andThen (escrowLimits investor paymentToken netPayment tokenAmount s1)
                     (\<lambda>s2. andThen (noteParticipant investor s2)
                       (\<lambda>s3. andThen (escrowPayout e investor paymentToken feeAmount
                                         feeRecipient netPayment s3)
                         (\<lambda>s4. andThen (distribute e investor tokenAmount s4)
                           (\<lambda>s5. if tokenAmount * price s5 > max_uint256 then Inl Panic
                                 else Inr (s5, tokenAmount)))))))))"

subsection \<open>Unlock and refund\<close>

definition unlock :: "env \<Rightarrow> sale \<Rightarrow> error + sale" where
  "unlock e s =
    nonPayable e
      (nonReentrant e (andThen (unlockAvailable s e)
        (\<lambda>available.
          if \<not> available then Inl (Revert ''Unlock not available'')
          else if \<not> lockedBalanceOf s (msg_sender e) > 0 then Inl (Revert ''No locked balance'')
          else
            (let amount = lockedBalanceOf s (msg_sender e);
                 s1 = s\<lparr>lockedBalanceOf := (lockedBalanceOf s)(msg_sender e := 0)\<rparr>
             in extern e (Erc20Transfer (token s1) (msg_sender e) amount) s1))))"

text \<open>
  \<open>claimBack(address)\<close> and the legacy \<open>claimBack()\<close> differ in the currency (the legacy one
  refunds the native asset) and in the message of the second \<open>require\<close>.
\<close>

definition claimBackWith :: "string \<Rightarrow> env \<Rightarrow> address \<Rightarrow> sale \<Rightarrow> error + sale" where
  "claimBackWith message e currency s =
    nonPayable e
      (nonReentrant e (andThen (state s e)
        (\<lambda>st.
          if st \<noteq> Failed then Inl (Revert ''Invalid state'')
          else if immediateTransfer s
            then Inl (Revert ''Refunds not available in immediate transfer mode'')
          else
            (let refundAmount = paidAmount s (msg_sender e) currency in
             if \<not> refundAmount > 0 then Inl (Revert message)
             else
               (let s1 = s\<lparr>paidAmount := (paidAmount s)(msg_sender e :=
                             (paidAmount s (msg_sender e))(currency := 0))\<rparr>;
                    s2 = (if purchaseOf s1 (msg_sender e) > 0
                          then s1\<lparr>purchaseOf := (purchaseOf s1)(msg_sender e := 0)\<rparr> else s1);
                    s3 = (if lockedBalanceOf s2 (msg_sender e) > 0
                          then s2\<lparr>lockedBalanceOf := (lockedBalanceOf s2)(msg_sender e := 0)\<rparr>
                          else s2)
                in extern e
                     (if currency = 0 then SendValue (msg_sender e) refundAmount
                      else Erc20Transfer currency (msg_sender e) refundAmount) s3)))))"

definition claimBack :: "env \<Rightarrow> address \<Rightarrow> sale \<Rightarrow> error + sale" where
  "claimBack e currency s = claimBackWith ''No refund available for this currency'' e currency s"

definition claimBackLegacy :: "env \<Rightarrow> sale \<Rightarrow> error + sale" where
  "claimBackLegacy e s = claimBackWith ''No ETH refund available'' e 0 s"

subsection \<open>Administration\<close>

definition MAX_WHITELIST_BATCH :: nat where
  "MAX_WHITELIST_BATCH = 100"

text \<open>The modifiers \<open>onlyTenantManagerOrInitialOwner\<close> and (inherited) \<open>onlyOwner\<close>.\<close>

definition onlyTenantManagerOrInitialOwner :: "env \<Rightarrow> sale \<Rightarrow> (sale \<Rightarrow> error + 'a) \<Rightarrow> error + 'a" where
  "onlyTenantManagerOrInitialOwner e s body =
    (if \<not> owner s = msg_sender e then Inl (Revert ''Caller is not owner or tenant manager'')
     else body s)"

definition onlyOwner :: "env \<Rightarrow> sale \<Rightarrow> (sale \<Rightarrow> error + 'a) \<Rightarrow> error + 'a" where
  "onlyOwner e s body =
    (if \<not> owner s = msg_sender e then Inl (Revert ''Ownable: caller is not the owner'')
     else body s)"

definition hasTenantManagerRole :: "env \<Rightarrow> sale \<Rightarrow> bool" where
  "hasTenantManagerRole e s =
    (if serviceContract s = 0 then False else msg_sender e = owner s)"

definition setServiceContract :: "env \<Rightarrow> address \<Rightarrow> sale \<Rightarrow> error + sale" where
  "setServiceContract e newServiceContract s =
    nonPayable e
      ((if \<not> (serviceContract s = 0 \<or> hasTenantManagerRole e s)
         then Inl (Revert ''TokenSale: caller is not owner or tenant manager'')
       else if \<not> newServiceContract \<noteq> 0 then Inl (Revert ''Invalid service contract address'')
       else Inr (s\<lparr>serviceContract := newServiceContract\<rparr>)))"

text \<open>
  A \<open>mint\<close> inside \<open>try\<close>: when the token reverts the \<open>catch\<close> branch runs and nothing
  is logged; when the token has no code the call fails in the caller, which reverts.
\<close>

definition mintReservedTokens :: "env \<Rightarrow> sale \<Rightarrow> error + (sale \<times> bool)" where
  "mintReservedTokens e s =
    nonPayable e
      (onlyTenantManagerOrInitialOwner e s
        (\<lambda>s. if \<not> reservedTokenAmount s > 0 then Inl (Revert ''TokenSale: no reserved tokens to mint'')
              else if \<not> hasCode e (token s) then Inl CallFailed
              else if call_ok e (TokenMint (token s) (owner s) (reservedTokenAmount s)) then
                Inr (s\<lparr>calls := calls s @ [TokenMint (token s) (owner s) (reservedTokenAmount s)],
                       reservedTokenAmount := 0\<rparr>, True)
              else Inr (s, False)))"

definition setTenantId :: "env \<Rightarrow> bytes32 \<Rightarrow> sale \<Rightarrow> error + sale" where
  "setTenantId e tid s =
    nonPayable e
      (onlyTenantManagerOrInitialOwner e s (\<lambda>s. Inr (s\<lparr>tenantId := tid\<rparr>)))"

definition setLockupTVLReachedForced :: "env \<Rightarrow> bool \<Rightarrow> sale \<Rightarrow> error + sale" where
  "setLockupTVLReachedForced e force s =
    nonPayable e
      (onlyTenantManagerOrInitialOwner e s
        (\<lambda>s. andThen
                (if \<not> force then
                   andThen (getTVL s)
                     (\<lambda>tvl. if \<not> tvl \<ge> lockupTVL s then Inl (Revert ''TVL not reached'') else Inr ())
                 else Inr ())
                (\<lambda>_. Inr (s\<lparr>lockupTVLReached := True\<rparr>))))"

definition setLockupTVLReached :: "env \<Rightarrow> sale \<Rightarrow> error + sale" where
  "setLockupTVLReached e s =
    nonPayable e
      (onlyTenantManagerOrInitialOwner e s
        (\<lambda>s. andThen (getTVL s)
                (\<lambda>tvl. if \<not> tvl \<ge> lockupTVL s then Inl (Revert ''TVL not reached'')
                       else Inr (s\<lparr>lockupTVLReached := True\<rparr>))))"

definition transferFunds :: "env \<Rightarrow> address \<Rightarrow> sale \<Rightarrow> error + sale" where
  "transferFunds e currency s =
    nonPayable e
      (onlyTenantManagerOrInitialOwner e s
        (\<lambda>s. andThen (state s e)
                (\<lambda>st. if st \<noteq> Successful then Inl (Revert ''Invalid state'')
                      else
                        (let amount = balanceOf e currency (self s) in
                         externIf (amount > 0) e
                           (if currency = 0 then SendValue (owner s) amount
                            else Erc20Transfer currency (owner s) amount) s))))"

definition pause :: "env \<Rightarrow> sale \<Rightarrow> error + sale" where
  "pause e s =
    nonPayable e
      (onlyTenantManagerOrInitialOwner e s
        (\<lambda>s. if paused s then Inl (Revert ''Pausable: paused'') else Inr (s\<lparr>paused := True\<rparr>)))"

definition unpause :: "env \<Rightarrow> sale \<Rightarrow> error + sale" where
  "unpause e s =
    nonPayable e
      (onlyTenantManagerOrInitialOwner e s
        (\<lambda>s. if \<not> paused s then Inl (Revert ''Pausable: not paused'') else Inr (s\<lparr>paused := False\<rparr>)))"

text \<open>
  The loops over a batch. Adding pushes an address that is not flagged yet and flags it;
  removing only clears the flag; the loops of \<open>initialize\<close> push and flag every entry.
\<close>

fun addLoop :: "address list \<Rightarrow> address list \<times> (address \<Rightarrow> bool) \<Rightarrow> address list \<times> (address \<Rightarrow> bool)" where
  "addLoop [] (arr, flag) = (arr, flag)"
| "addLoop (u # us) (arr, flag) =
     (if \<not> flag u then addLoop us (arr @ [u], flag(u := True)) else addLoop us (arr, flag))"

fun removeLoop :: "address list \<Rightarrow> (address \<Rightarrow> bool) \<Rightarrow> (address \<Rightarrow> bool)" where
  "removeLoop [] flag = flag"
| "removeLoop (u # us) flag = removeLoop us (flag(u := False))"

fun initLoop :: "address list \<Rightarrow> address list \<times> (address \<Rightarrow> bool) \<Rightarrow> address list \<times> (address \<Rightarrow> bool)" where
  "initLoop [] (arr, flag) = (arr, flag)"
| "initLoop (u # us) (arr, flag) = initLoop us (arr @ [u], flag(u := True))"

definition addToUserWhitelist :: "env \<Rightarrow> address list \<Rightarrow> sale \<Rightarrow> error + sale" where
  "addToUserWhitelist e users s =
    nonPayable e
      (onlyTenantManagerOrInitialOwner e s
        (\<lambda>s. if \<not> length users \<le> MAX_WHITELIST_BATCH then Inl (Revert ''Batch size exceeds limit'')
              else
                (let (arr, flag) = addLoop users (userWhitelist s, isUserWhitelisted s)
                 in Inr (s\<lparr>userWhitelist := arr, isUserWhitelisted := flag\<rparr>))))"

definition removeFromUserWhitelist :: "env \<Rightarrow> address list \<Rightarrow> sale \<Rightarrow> error + sale" where
  "removeFromUserWhitelist e users s =
    nonPayable e
      (onlyTenantManagerOrInitialOwner e s
        (\<lambda>s. Inr (s\<lparr>isUserWhitelisted := removeLoop users (isUserWhitelisted s)\<rparr>)))"

definition addToTokenWhitelist :: "env \<Rightarrow> address list \<Rightarrow> sale \<Rightarrow> error + sale" where
  "addToTokenWhitelist e tokens s =
    nonPayable e
      (onlyTenantManagerOrInitialOwner e s
        (\<lambda>s. if \<not> length tokens \<le> MAX_WHITELIST_BATCH then Inl (Revert ''Batch size exceeds limit'')
              else
                (let (arr, flag) = addLoop tokens (tokenWhitelist s, isTokenWhitelisted s)
                 in Inr (s\<lparr>tokenWhitelist := arr, isTokenWhitelisted := flag\<rparr>))))"

definition removeFromTokenWhitelist :: "env \<Rightarrow> address list \<Rightarrow> sale \<Rightarrow> error + sale" where
  "removeFromTokenWhitelist e tokens s =
    nonPayable e
      (onlyTenantManagerOrInitialOwner e s
        (\<lambda>s. Inr (s\<lparr>isTokenWhitelisted := removeLoop tokens (isTokenWhitelisted s)\<rparr>)))"

definition setReservedTokenAmount :: "env \<Rightarrow> nat \<Rightarrow> sale \<Rightarrow> error + sale" where
  "setReservedTokenAmount e amount s =
    nonPayable e
      (onlyOwner e s (\<lambda>s. Inr (s\<lparr>reservedTokenAmount := amount\<rparr>)))"

text \<open>The two functions inherited from \<open>OwnableUpgradeable\<close> that change the owner.\<close>

definition transferOwnership :: "env \<Rightarrow> address \<Rightarrow> sale \<Rightarrow> error + sale" where
  "transferOwnership e newOwner s =
    nonPayable e
      (onlyOwner e s
        (\<lambda>s. if \<not> newOwner \<noteq> 0 then Inl (Revert ''Ownable: new owner is the zero address'')
              else Inr (s\<lparr>owner := newOwner\<rparr>)))"

definition renounceOwnership :: "env \<Rightarrow> sale \<Rightarrow> error + sale" where
  "renounceOwnership e s = nonPayable e (onlyOwner e s (\<lambda>s. Inr (s\<lparr>owner := 0\<rparr>)))"

subsection \<open>Initialization\<close>

text \<open>
  The storage of a freshly deployed proxy: every slot is zero. \<open>initialize\<close> runs under
  the \<open>initializer\<close> modifier, so only once.
\<close>

definition deployed :: "address \<Rightarrow> sale" where
  "deployed a =
    \<lparr>self = a, owner = 0, paused = False, initialized = False, token = 0, metadataURI = [],
     price = 0, hardcap = 0, softcap = 0, minPurchase = 0, maxPurchase = 0, lockupPercent = 0,
     lockupTVL = 0, lockupDuration = 0, duration = 0, createdAt = 0, totalPurchases = 0,
     serviceContract = 0, tenantId = 0, totalPurchasesInCurrency = (\<lambda>_. 0),
     totalParticipants = 0, hasParticipated = (\<lambda>_. False), immediateTransfer = False,
     paidAmount = (\<lambda>_ _. 0), userWhitelist = [], tokenWhitelist = [], reservedTokenAmount = 0,
     isUserWhitelisted = (\<lambda>_. False), isTokenWhitelisted = (\<lambda>_. False),
     purchaseOf = (\<lambda>_. 0), lockedBalanceOf = (\<lambda>_. 0), lockupTVLReached = False, calls = []\<rparr>"

text \<open>The reserved-token block of \<open>initialize\<close>, entered when a token is set.\<close>

definition initReserved :: "env \<Rightarrow> address \<Rightarrow> TGEInfo \<Rightarrow> sale \<Rightarrow> error + sale" where
  "initReserved e newOwner info s =
    (if token s \<noteq> 0 then
       (if info_hardcap info * info_reservedTokenPercent info > max_uint256 then Inl Panic
        else
          (let s1 = s\<lparr>reservedTokenAmount :=
                        (info_hardcap info * info_reservedTokenPercent info) div 10000\<rparr>
           in if reservedTokenAmount s1 > 0 \<and> \<not> hasCode e (token s1) then Inl CallFailed
              else if reservedTokenAmount s1 > 0
                 \<and> call_ok e (TokenMint (token s1) newOwner (reservedTokenAmount s1))
              then Inr (s1\<lparr>calls := calls s1 @ [TokenMint (token s1) newOwner (reservedTokenAmount s1)],
                          reservedTokenAmount := 0\<rparr>)
              else Inr s1))
     else Inr s)"

definition initialize ::
  "env \<Rightarrow> address \<Rightarrow> address \<Rightarrow> TGEInfo \<Rightarrow> bytes32 \<Rightarrow> address \<Rightarrow> bool \<Rightarrow> sale \<Rightarrow> error + sale" where
  "initialize e newOwner newToken info tid newServiceContract immediate s =
    nonPayable e
      ((if initialized s then Inl (Revert ''Initializable: contract is already initialized'')
       else
         andThen
           (initReserved e newOwner info
              (s\<lparr>initialized := True, owner := newOwner, paused := False, token := newToken,
                 metadataURI := info_metadataURI info, price := info_price info,
                 hardcap := info_hardcap info, softcap := info_softcap info,
                 minPurchase := info_minPurchase info, maxPurchase := info_maxPurchase info,
                 lockupPercent := info_lockupPercent info, lockupTVL := info_lockupTVL info,
                 lockupDuration := info_lockupDuration info, duration := info_duration info,
                 lockupTVLReached := (info_lockupTVL info = 0), tenantId := tid,
                 serviceContract := newServiceContract, immediateTransfer := immediate\<rparr>))
           (\<lambda>s1.
             (let (users, userFlag) =
                    initLoop (info_userWhitelist info) (userWhitelist s1, isUserWhitelisted s1);
                  (tokens, tokenFlag) =
                    initLoop (info_tokenWhitelist info) (tokenWhitelist s1, isTokenWhitelisted s1)
              in Inr (s1\<lparr>createdAt := block_timestamp e,
                         userWhitelist := users, isUserWhitelisted := userFlag,
                         tokenWhitelist := tokens, isTokenWhitelisted := tokenFlag\<rparr>)))))"

subsection \<open>The contract as a transition system\<close>

text \<open>One constructor for each external function that changes storage.\<close>

datatype call =
    Initialize address address TGEInfo bytes32 address bool
  | SetServiceContract address
  | MintReservedTokens
  | SetTenantId bytes32
  | PurchaseWithEscrow address nat address
  | Purchase address nat
  | Unlock
  | ClaimBack address
  | ClaimBackLegacy
  | SetLockupTVLReachedForced bool
  | SetLockupTVLReached
  | TransferFunds address
  | Pause
  | Unpause
  | AddToUserWhitelist "address list"
  | RemoveFromUserWhitelist "address list"
  | AddToTokenWhitelist "address list"
  | RemoveFromTokenWhitelist "address list"
  | SetReservedTokenAmount nat
  | TransferOwnership address
  | RenounceOwnership

fun step :: "env \<Rightarrow> call \<Rightarrow> sale \<Rightarrow> error + sale" where
  "step e (Initialize newOwner newToken info tid sc immediate) s =
     initialize e newOwner newToken info tid sc immediate s"
| "step e (SetServiceContract sc) s = setServiceContract e sc s"
| "step e MintReservedTokens s = andThen (mintReservedTokens e s) (\<lambda>(s', _). Inr s')"
| "step e (SetTenantId tid) s = setTenantId e tid s"
| "step e (PurchaseWithEscrow investor paymentAmount paymentToken) s =
     andThen (purchaseWithEscrow e investor paymentAmount paymentToken s) (\<lambda>(s', _). Inr s')"
| "step e (Purchase currency amount) s = purchase e currency amount s"
| "step e Unlock s = unlock e s"
| "step e (ClaimBack currency) s = claimBack e currency s"
| "step e ClaimBackLegacy s = claimBackLegacy e s"
| "step e (SetLockupTVLReachedForced force) s = setLockupTVLReachedForced e force s"
| "step e SetLockupTVLReached s = setLockupTVLReached e s"
| "step e (TransferFunds currency) s = transferFunds e currency s"
| "step e Pause s = pause e s"
| "step e Unpause s = unpause e s"
| "step e (AddToUserWhitelist users) s = addToUserWhitelist e users s"
| "step e (RemoveFromUserWhitelist users) s = removeFromUserWhitelist e users s"
| "step e (AddToTokenWhitelist tokens) s = addToTokenWhitelist e tokens s"
| "step e (RemoveFromTokenWhitelist tokens) s = removeFromTokenWhitelist e tokens s"
| "step e (SetReservedTokenAmount amount) s = setReservedTokenAmount e amount s"
| "step e (TransferOwnership newOwner) s = transferOwnership e newOwner s"
| "step e RenounceOwnership s = renounceOwnership e s"

text \<open>A transaction: the new state when the call succeeds, the old one when it reverts.\<close>

definition transact :: "env \<Rightarrow> call \<Rightarrow> sale \<Rightarrow> sale" where
  "transact e c s = (case step e c s of Inl _ \<Rightarrow> s | Inr s' \<Rightarrow> s')"

text \<open>
  A history of the contract: the calls made to it, each in its own environment, applied
  from a starting state.
\<close>

fun saleRun :: "(env \<times> call) list \<Rightarrow> sale \<Rightarrow> sale" where
  "saleRun [] s = s"
| "saleRun ((e, c) # rest) s = saleRun rest (transact e c s)"

text \<open>
  The configuration: the storage that \<open>initialize\<close> writes and no other function does.
  \<open>kept s s'\<close> says that a step left the configuration and the purchase ledger alone.
\<close>

definition config ::
  "sale \<Rightarrow> (nat \<times> nat \<times> nat \<times> nat \<times> nat) \<times> (nat \<times> nat \<times> nat \<times> nat \<times> nat)
     \<times> (bool \<times> bool \<times> address \<times> address)" where
  "config s = ((price s, hardcap s, softcap s, minPurchase s, maxPurchase s),
               (lockupPercent s, lockupTVL s, lockupDuration s, duration s, createdAt s),
               (immediateTransfer s, initialized s, token s, self s))"

definition kept :: "sale \<Rightarrow> sale \<Rightarrow> bool" where
  "kept s s' \<longleftrightarrow> config s' = config s \<and> totalPurchases s' = totalPurchases s
     \<and> purchaseOf s' = purchaseOf s \<and> lockedBalanceOf s' = lockedBalanceOf s
     \<and> lockupTVLReached s' = lockupTVLReached s"

section \<open>InvestmentEscrow\<close>

datatype Status = Active | Approved | PartiallyApproved | Rejected | Executed | Refunded | Expired

definition MAX_ESCROW_DURATION :: nat where
  "MAX_ESCROW_DURATION = 30 * 86400"

definition ADMIN_ACTION_DEADLINE :: nat where
  "ADMIN_ACTION_DEADLINE = 14 * 86400"

text \<open>
  The storage of an escrow, its holdings and its outgoing calls. \<open>balance\<close> is what the
  escrow holds of its payment currency (\<open>address(this).balance\<close> for the native asset,
  \<open>balanceOf(address(this))\<close> for a token): \<open>_getBalance\<close> reads it. \<open>sent\<close> logs the
  outgoing calls. The creation time of the escrow is \<open>createdAtEscrow\<close>, and
  \<open>escrowAddress\<close> is \<open>address(this)\<close>, the address the constructor deploys at.
\<close>

record escrow =
  escrowAddress :: address
  factory :: address
  investor :: address
  tokenSale :: address
  paymentToken :: address
  createdAtEscrow :: nat
  expirationTime :: nat
  adminDeadline :: nat
  amount :: nat
  tokenAmount :: nat
  status :: Status
  rejectionReason :: string
  approvedAmount :: nat
  refundedAmount :: nat
  balance :: nat
  sent :: "extcall list"

definition constructor ::
  "env \<Rightarrow> address \<Rightarrow> address \<Rightarrow> address \<Rightarrow> address \<Rightarrow> error + escrow" where
  "constructor e deployedAt newInvestor newTokenSale newPaymentToken =
    nonPayable e
      ((if \<not> newInvestor \<noteq> 0 then Inl (Revert ''Invalid investor'')
       else if \<not> newTokenSale \<noteq> 0 then Inl (Revert ''Invalid token sale'')
       else if block_timestamp e + MAX_ESCROW_DURATION > max_uint256 then Inl Panic
       else if block_timestamp e + ADMIN_ACTION_DEADLINE > max_uint256 then Inl Panic
       else Inr \<lparr>escrowAddress = deployedAt, factory = msg_sender e, investor = newInvestor, tokenSale = newTokenSale,
                 paymentToken = newPaymentToken, createdAtEscrow = block_timestamp e,
                 expirationTime = block_timestamp e + MAX_ESCROW_DURATION,
                 adminDeadline = block_timestamp e + ADMIN_ACTION_DEADLINE,
                 amount = 0, tokenAmount = 0, status = Status.Active, rejectionReason = [],
                 approvedAmount = 0, refundedAmount = 0, balance = 0, sent = []\<rparr>))"

definition onlyAdmin :: "env \<Rightarrow> escrow \<Rightarrow> (escrow \<Rightarrow> error + escrow) \<Rightarrow> error + escrow" where
  "onlyAdmin e s body =
    (case isAdmin e (msg_sender e) of
       None \<Rightarrow> Inl CallFailed
     | Some False \<Rightarrow> Inl (Revert ''Only admin'')
     | Some True \<Rightarrow> body s)"

definition getBalance :: "escrow \<Rightarrow> nat" where
  "getBalance s = balance s"

definition deposit :: "env \<Rightarrow> nat \<Rightarrow> escrow \<Rightarrow> error + escrow" where
  "deposit e newAmount s =
    nonReentrant e
    (if \<not> msg_sender e = investor s then Inl (Revert ''Only investor can deposit'')
     else if \<not> status s = Status.Active then Inl (Revert ''Escrow not active'')
     else if \<not> amount s = 0 then Inl (Revert ''Already funded'')
     else if \<not> block_timestamp e < expirationTime s then Inl (Revert ''Escrow expired'')
     else if paymentToken s = 0 then
       (if \<not> msg_value e > 0 then Inl (Revert ''No ETH sent'')
        else Inr (s\<lparr>amount := msg_value e, balance := balance s + msg_value e\<rparr>))
     else
       (if \<not> newAmount > 0 then Inl (Revert ''Invalid amount'')
        else if \<not> msg_value e = 0 then Inl (Revert ''ETH sent for token payment'')
        else if \<not> call_ok e (Erc20TransferFrom (paymentToken s) (msg_sender e) (escrowAddress s) newAmount)
          then Inl CallFailed
        else Inr (s\<lparr>amount := newAmount, balance := balance s + newAmount\<rparr>)))"

text \<open>
  \<open>_refund\<close>: the amount must be positive; the transfer fails when the escrow holds less
  than the amount or the recipient (or the token) refuses it.
\<close>

definition refundTo :: "env \<Rightarrow> address \<Rightarrow> nat \<Rightarrow> escrow \<Rightarrow> error + escrow" where
  "refundTo e recipient refundAmount s =
    (if \<not> refundAmount > 0 then Inl (Revert ''Nothing to refund'')
     else if paymentToken s = 0 then
       (if \<not> (refundAmount \<le> balance s \<and> call_ok e (SendValue recipient refundAmount))
          then Inl (Revert ''ETH refund failed'')
        else Inr (s\<lparr>balance := balance s - refundAmount,
                     sent := sent s @ [SendValue recipient refundAmount]\<rparr>))
     else
       (if \<not> (refundAmount \<le> balance s
               \<and> call_ok e (Erc20Transfer (paymentToken s) recipient refundAmount))
          then Inl CallFailed
        else Inr (s\<lparr>balance := balance s - refundAmount,
                     sent := sent s @ [Erc20Transfer (paymentToken s) recipient refundAmount]\<rparr>)))"

text \<open>
  \<open>_executePurchase\<close>: for a token the sale gets an allowance of the sub-amount; the sale
  is called (with the value attached for the native asset) and takes the sub-amount; its
  answer is recorded and the status becomes \<open>Executed\<close>.
\<close>

definition executePurchase :: "env \<Rightarrow> nat \<Rightarrow> escrow \<Rightarrow> error + escrow" where
  "executePurchase e subAmount s =
    (if paymentToken s \<noteq> 0
        \<and> \<not> call_ok e (Erc20Approve (paymentToken s) (tokenSale s) subAmount)
       then Inl CallFailed
     else if \<not> subAmount \<le> balance s then Inl CallFailed
     else
       (case salePurchaseWithEscrow e (investor s) subAmount (paymentToken s) of
          None \<Rightarrow> Inl CallFailed
        | Some bought \<Rightarrow>
            Inr (s\<lparr>tokenAmount := bought, status := Status.Executed,
                   balance := balance s - subAmount,
                   sent := sent s @
                     (if paymentToken s \<noteq> 0
                      then [Erc20Approve (paymentToken s) (tokenSale s) subAmount] else [])\<rparr>)))"

definition approveAndExecute :: "env \<Rightarrow> escrow \<Rightarrow> error + escrow" where
  "approveAndExecute e s =
    nonPayable e
      (onlyAdmin e s
        (\<lambda>s. nonReentrant e
             (if \<not> (status s = Status.Active \<and> amount s > 0) then Inl (Revert ''Cannot approve'')
              else if \<not> block_timestamp e < expirationTime s then Inl (Revert ''Escrow expired'')
              else executePurchase e (amount s)
                     (s\<lparr>status := Status.Approved, approvedAmount := amount s\<rparr>))))"

definition partialApproveAndExecute :: "env \<Rightarrow> nat \<Rightarrow> escrow \<Rightarrow> error + escrow" where
  "partialApproveAndExecute e newApproved s =
    nonPayable e
      (onlyAdmin e s
        (\<lambda>s. nonReentrant e
             (if \<not> (status s = Status.Active \<and> amount s > 0) then Inl (Revert ''Cannot approve'')
              else if \<not> (newApproved > 0 \<and> newApproved < amount s)
                then Inl (Revert ''Invalid approved amount'')
              else if \<not> block_timestamp e < expirationTime s then Inl (Revert ''Escrow expired'')
              else
                andThen
                  (executePurchase e newApproved
                     (s\<lparr>status := Status.PartiallyApproved, approvedAmount := newApproved,
                        refundedAmount := amount s - newApproved\<rparr>))
                  (\<lambda>s1. refundTo e (investor s1) (refundedAmount s1) s1))))"

definition rejectAndRefund :: "env \<Rightarrow> string \<Rightarrow> escrow \<Rightarrow> error + escrow" where
  "rejectAndRefund e reason s =
    nonPayable e
      (onlyAdmin e s
        (\<lambda>s. nonReentrant e
             (if \<not> (status s = Status.Active \<and> amount s > 0) then Inl (Revert ''Cannot reject'')
              else refundTo e (investor s) (amount s)
                     (s\<lparr>status := Status.Rejected, rejectionReason := reason,
                        refundedAmount := amount s\<rparr>))))"

definition canRefund :: "escrow \<Rightarrow> env \<Rightarrow> bool" where
  "canRefund s e =
    (if status s = Status.Refunded \<or> status s = Status.Executed \<or> status s = Status.Expired
       then False
     else if status s = Status.Rejected then True
     else if block_timestamp e \<ge> expirationTime s then True
     else if status s = Status.Active \<and> amount s > 0 \<and> block_timestamp e \<ge> adminDeadline s
       then True
     else False)"

definition refund :: "env \<Rightarrow> escrow \<Rightarrow> error + escrow" where
  "refund e s =
    nonPayable e
      (nonReentrant e
        (if \<not> canRefund s e then Inl (Revert ''Cannot refund'')
       else
         (let refundAmount = amount s;
              s1 = (if status s = Status.Active then s\<lparr>status := Status.Expired\<rparr>
                    else if status s = Status.Rejected then s\<lparr>status := Status.Refunded\<rparr>
                    else s\<lparr>status := Status.Refunded\<rparr>);
              s2 = s1\<lparr>refundedAmount := refundAmount\<rparr>
          in refundTo e (investor s2) refundAmount s2)))"

definition emergencyWithdraw :: "env \<Rightarrow> escrow \<Rightarrow> error + escrow" where
  "emergencyWithdraw e s =
    nonPayable e
      (onlyAdmin e s
        (\<lambda>s. nonReentrant e
             (if \<not> (status s \<noteq> Status.Refunded \<and> status s \<noteq> Status.Executed)
                then Inl (Revert ''Already finalized'')
              else
                (let withdrawAmount = getBalance s in
                 if \<not> withdrawAmount > 0 then Inl (Revert ''Nothing to withdraw'')
                 else refundTo e (investor s) withdrawAmount
                        (s\<lparr>status := Status.Refunded, refundedAmount := withdrawAmount\<rparr>)))))"

text \<open>\<open>receive()\<close>: plain value sent to the escrow, accepted by a native-asset escrow only.\<close>

definition receive :: "env \<Rightarrow> escrow \<Rightarrow> error + escrow" where
  "receive e s =
    (if \<not> paymentToken s = 0 then Inl (Revert ''Not ETH escrow'')
     else Inr (s\<lparr>balance := balance s + msg_value e\<rparr>))"

text \<open>
  The calls an escrow can receive. \<open>TokenArrived\<close> is no function of the contract: it is a
  third party's transfer of payment tokens to the address of a token escrow, which only
  raises what the escrow holds.
\<close>

datatype escrowCall =
    Deposit nat
  | ApproveAndExecute
  | PartialApproveAndExecute nat
  | RejectAndRefund string
  | Refund
  | EmergencyWithdraw
  | Receive
  | TokenArrived nat

fun escrowStep :: "env \<Rightarrow> escrowCall \<Rightarrow> escrow \<Rightarrow> error + escrow" where
  "escrowStep e (Deposit n) s = deposit e n s"
| "escrowStep e ApproveAndExecute s = approveAndExecute e s"
| "escrowStep e (PartialApproveAndExecute n) s = partialApproveAndExecute e n s"
| "escrowStep e (RejectAndRefund reason) s = rejectAndRefund e reason s"
| "escrowStep e Refund s = refund e s"
| "escrowStep e EmergencyWithdraw s = emergencyWithdraw e s"
| "escrowStep e Receive s = receive e s"
| "escrowStep e (TokenArrived n) s =
     (if paymentToken s = 0 then Inl CallFailed else Inr (s\<lparr>balance := balance s + n\<rparr>))"

text \<open>
  A history of an escrow: the calls made to it, each in its own environment. A call that
  reverts leaves the escrow as it was.
\<close>

fun escrowRun :: "(env \<times> escrowCall) list \<Rightarrow> escrow \<Rightarrow> escrow" where
  "escrowRun [] s = s"
| "escrowRun ((e, c) # rest) s =
     escrowRun rest (case escrowStep e c s of Inl _ \<Rightarrow> s | Inr s' \<Rightarrow> s')"

definition terminal :: "Status \<Rightarrow> bool" where
  "terminal st = (st = Status.Rejected \<or> st = Status.Executed \<or> st = Status.Refunded
                   \<or> st = Status.Expired)"

text \<open>
  Two invariants of an escrow. \<open>settled\<close> relates the three amounts in each status, and
  holds as long as there is no emergency withdrawal; \<open>unapproved\<close> says that only an
  executed escrow has an approved amount, and that the statuses \<open>Approved\<close> and
  \<open>PartiallyApproved\<close> never outlast a call. \<open>refundCall\<close> is the transfer by which
  \<open>refund\<close> returns the deposit.
\<close>

definition settled :: "escrow \<Rightarrow> bool" where
  "settled s \<longleftrightarrow>
     (status s = Status.Active \<longrightarrow> approvedAmount s = 0 \<and> refundedAmount s = 0)
   \<and> (status s = Status.Rejected \<or> status s = Status.Expired \<or> status s = Status.Refunded
        \<longrightarrow> approvedAmount s = 0 \<and> refundedAmount s = amount s)
   \<and> (status s = Status.Executed \<longrightarrow> approvedAmount s + refundedAmount s = amount s)
   \<and> status s \<noteq> Status.Approved \<and> status s \<noteq> Status.PartiallyApproved"

definition unapproved :: "escrow \<Rightarrow> bool" where
  "unapproved s \<longleftrightarrow>
     (status s \<noteq> Status.Executed \<longrightarrow> approvedAmount s = 0)
   \<and> status s \<noteq> Status.Approved \<and> status s \<noteq> Status.PartiallyApproved"

definition refundCall :: "escrow \<Rightarrow> extcall" where
  "refundCall s =
    (if paymentToken s = 0 then SendValue (investor s) (amount s)
     else Erc20Transfer (paymentToken s) (investor s) (amount s))"

section \<open>Concrete scenarios\<close>

text \<open>
  An environment in which the collaborators cooperate: no fee is configured (every fee
  query reverts), the factory vouches for the escrow at address 60 and names address 2 as
  admin, the sale holds none of its token but may mint, the sale answers an escrow with
  as many tokens as units paid, and every outgoing call succeeds.
\<close>

definition cooperative :: "address \<Rightarrow> nat \<Rightarrow> nat \<Rightarrow> env" where
  "cooperative sender val time =
    \<lparr>msg_sender = sender, msg_value = val, block_timestamp = time,
     getCommissionRateMinimal = (\<lambda>_. Reverts), getFeeRecipientMinimal = (\<lambda>_. Reverts),
     getCommissionRate = (\<lambda>_ _. Reverts), getFeeRecipient = (\<lambda>_ _. Reverts),
     investmentEscrowFactory = Some 77, isValidEscrow = (\<lambda>a. Some (a = 60)),
     balanceOf = (\<lambda>_ _. 0), allowance = (\<lambda>_ _ _. 0), hasMinterRole = Some True,
     hasCode = (\<lambda>_. True), reentrant = False,
     isAdmin = (\<lambda>a. Some (a = 2)), salePurchaseWithEscrow = (\<lambda>_ n _. Some n),
     call_ok = (\<lambda>_. True)\<rparr>"

text \<open>
  A sale of 1000 tokens at one payment unit per token: soft cap 100, between 50 and 500
  tokens per buyer, half of each purchase locked until the threshold is reached, one day
  long, in vault mode, created at time 1000 by owner 1 at address 99 for token 7.
\<close>

definition exampleInfo :: TGEInfo where
  "exampleInfo =
    \<lparr>info_metadataURI = [], info_price = 10 ^ 18, info_hardcap = 1000, info_softcap = 100,
     info_minPurchase = 50, info_maxPurchase = 500, info_lockupPercent = 5000,
     info_lockupTVL = 800, info_lockupDuration = 3600, info_duration = 86400,
     info_reservedTokenPercent = 0, info_userWhitelist = [], info_tokenWhitelist = []\<rparr>"

definition exampleSale :: sale where
  "exampleSale =
    transact (cooperative 1 0 1000) (Initialize 1 7 exampleInfo 0 0 False) (deployed 99)"

text \<open>
  The same sale with a service contract (address 88), so that escrows can buy; the same
  sale with the longest duration a \<open>uint256\<close> can hold; the sale with the service
  contract and a lockup threshold of zero; and an environment in which the service contract names a fee of 250
  basis points for recipient 9.
\<close>

definition escrowSale :: sale where
  "escrowSale =
    transact (cooperative 1 0 1000) (Initialize 1 7 exampleInfo 0 88 False) (deployed 99)"

definition overflowSale :: sale where
  "overflowSale =
    transact (cooperative 1 0 1000)
      (Initialize 1 7 (exampleInfo\<lparr>info_duration := max_uint256\<rparr>) 0 0 False) (deployed 99)"

definition openSale :: sale where
  "openSale =
    transact (cooperative 1 0 1000)
      (Initialize 1 7 (exampleInfo\<lparr>info_lockupTVL := 0\<rparr>) 0 88 False) (deployed 99)"

definition withFee :: "env \<Rightarrow> env" where
  "withFee e = e\<lparr>getCommissionRateMinimal := (\<lambda>_. Returns 250),
                  getFeeRecipientMinimal := (\<lambda>_. Returns 9)\<rparr>"

text \<open>
  An escrow for the native asset, created at time 1000 by the factory at address 3 for
  investor 5 and the sale at address 99, deployed at address 60 and not yet funded.
\<close>

definition exampleEscrow :: escrow where
  "exampleEscrow =
    \<lparr>escrowAddress = 60, factory = 3, investor = 5, tokenSale = 99, paymentToken = 0,
     createdAtEscrow = 1000, expirationTime = 2593000, adminDeadline = 1210600,
     amount = 0, tokenAmount = 0, status = Status.Active, rejectionReason = [],
     approvedAmount = 0, refundedAmount = 0, balance = 0, sent = []\<rparr>"

section \<open>Properties of the TokenSale\<close>

subsection \<open>What each step leaves alone\<close>

lemma andThen_Inr: "andThen m f = Inr y \<longleftrightarrow> (\<exists>x. m = Inr x \<and> f x = Inr y)"
  by (cases m) (simp_all add: andThen_def)

lemma nonPayable_Inr: "nonPayable e m = Inr y \<longleftrightarrow> msg_value e = 0 \<and> m = Inr y"
  by (simp add: nonPayable_def)

lemma nonReentrant_Inr: "nonReentrant e m = Inr y \<longleftrightarrow> \<not> reentrant e \<and> m = Inr y"
  by (simp add: nonReentrant_def)

lemma kept_refl: "kept s s"
  by (simp add: kept_def)

lemma kept_trans: "kept s s1 \<Longrightarrow> kept s1 s2 \<Longrightarrow> kept s s2"
  by (simp add: kept_def)

lemma extern_kept: "extern e c s = Inr s' \<Longrightarrow> kept s s'"
  by (auto simp: extern_def kept_def config_def split: if_splits)

lemma externIf_kept: "externIf b e c s = Inr s' \<Longrightarrow> kept s s'"
  by (auto simp: externIf_def kept_refl dest: extern_kept split: if_splits)

lemma recordPaid_kept: "recordPaid a cur n s = Inr s' \<Longrightarrow> kept s s'"
  by (auto simp: recordPaid_def kept_def config_def split: if_splits)

lemma recordCurrencyTotal_kept: "recordCurrencyTotal cur n s = Inr s' \<Longrightarrow> kept s s'"
  by (auto simp: recordCurrencyTotal_def kept_def config_def split: if_splits)

lemma noteParticipant_kept: "noteParticipant a s = Inr s' \<Longrightarrow> kept s s'"
  by (auto simp: noteParticipant_def kept_def config_def split: if_splits)

lemma deliver_kept: "deliver e a n s = Inr s' \<Longrightarrow> kept s s'"
  unfolding deliver_def Let_def
  by (auto simp: andThen_Inr split: if_splits option.splits bool.splits
      dest!: externIf_kept extern_kept intro: kept_trans)

lemma purchasePayment_kept: "purchasePayment e cur n s = Inr s' \<Longrightarrow> kept s s'"
  unfolding purchasePayment_def Let_def
  by (auto simp: andThen_Inr split: if_splits prod.splits
      dest!: externIf_kept extern_kept recordPaid_kept recordCurrencyTotal_kept
      intro: kept_trans)




lemma distribute_effect:
  assumes "distribute e a n s = Inr s'"
  shows "config s' = config s \<and> totalPurchases s' = totalPurchases s
     \<and> purchaseOf s' = purchaseOf s \<and> lockupTVLReached s' = lockupTVLReached s
     \<and> (\<forall>b. lockedBalanceOf s b \<le> lockedBalanceOf s' b)
     \<and> (lockupTVLReached s \<longrightarrow> lockedBalanceOf s' = lockedBalanceOf s)"
proof (cases "lockupTVLReached s")
  case True
  with assms have "deliver e a n s = Inr s'"
    by (simp add: distribute_def)
  from deliver_kept[OF this] show ?thesis
    by (simp add: kept_def)
next
  case False
  let ?u = "(n * (10000 - lockupPercent s)) div 10000"
  from assms False obtain s1 where d: "deliver e a ?u s = Inr s1"
    and r: "s' = s1 \<or> s' = s1\<lparr>lockedBalanceOf :=
                (lockedBalanceOf s1)(a := lockedBalanceOf s1 a + (n - ?u))\<rparr>"
    unfolding distribute_def Let_def andThen_def
    by (auto split: if_splits sum.splits)
  from deliver_kept[OF d] have k: "config s1 = config s" "totalPurchases s1 = totalPurchases s"
    "purchaseOf s1 = purchaseOf s" "lockedBalanceOf s1 = lockedBalanceOf s"
    "lockupTVLReached s1 = lockupTVLReached s"
    by (simp_all add: kept_def)
  from r show ?thesis
  proof
    assume "s' = s1"
    with k False show ?thesis by simp
  next
    assume "s' = s1\<lparr>lockedBalanceOf :=
                (lockedBalanceOf s1)(a := lockedBalanceOf s1 a + (n - ?u))\<rparr>"
    with k False show ?thesis by (simp add: config_def)
  qed
qed

lemma purchaseLimits_effect:
  assumes "purchaseLimits e n s = Inr s'"
  shows "config s' = config s \<and> lockedBalanceOf s' = lockedBalanceOf s
     \<and> lockupTVLReached s' = lockupTVLReached s
     \<and> totalPurchases s' = totalPurchases s + n
     \<and> purchaseOf s' = (purchaseOf s)(msg_sender e := purchaseOf s (msg_sender e) + n)
     \<and> minPurchase s \<le> n
     \<and> purchaseOf s (msg_sender e) + n \<le> maxPurchase s
     \<and> totalPurchases s + n \<le> hardcap s"
  using assms
  unfolding purchaseLimits_def maxPurchaseOf_def andThen_def config_def
  by (auto split: if_splits sum.splits)

lemma purchase_effect:
  assumes "purchase e cur n s = Inr s'"
  shows "config s' = config s
     \<and> lockupTVLReached s' = lockupTVLReached s
     \<and> (\<forall>b. lockedBalanceOf s b \<le> lockedBalanceOf s' b)
     \<and> (lockupTVLReached s \<longrightarrow> lockedBalanceOf s' = lockedBalanceOf s)
     \<and> totalPurchases s' = totalPurchases s + n
     \<and> purchaseOf s' = (purchaseOf s)(msg_sender e := purchaseOf s (msg_sender e) + n)
     \<and> minPurchase s \<le> n
     \<and> purchaseOf s (msg_sender e) + n \<le> maxPurchase s
     \<and> totalPurchases s + n \<le> hardcap s"
proof -
  from assms obtain s1 s2 s3 where
    p: "purchasePayment e cur n s = Inr s1" and l: "purchaseLimits e n s1 = Inr s2"
    and np: "noteParticipant (msg_sender e) s2 = Inr s3"
    and d: "distribute e (msg_sender e) n s3 = Inr s'"
    by (auto simp: purchase_def nonReentrant_Inr andThen_Inr split: if_splits)
  show ?thesis
    using purchasePayment_kept[OF p] purchaseLimits_effect[OF l]
      noteParticipant_kept[OF np] distribute_effect[OF d]
    by (simp add: kept_def config_def)
qed


lemma escrowTokenAmount_effect:
  assumes "escrowTokenAmount e pay ptok net s = Inr (s', n)"
  shows "kept s s' \<and> n = (net * 10 ^ 18) div price s \<and> price s \<noteq> 0"
  using assms
  unfolding escrowTokenAmount_def
  by (auto simp: andThen_Inr kept_refl kept_def config_def split: if_splits dest!: extern_kept)

lemma escrowLimits_effect:
  assumes "escrowLimits who ptok net n s = Inr s'"
  shows "config s' = config s \<and> lockedBalanceOf s' = lockedBalanceOf s
     \<and> lockupTVLReached s' = lockupTVLReached s
     \<and> totalPurchases s' = totalPurchases s + n
     \<and> purchaseOf s' = (purchaseOf s)(who := purchaseOf s who + n)
     \<and> minPurchase s \<le> purchaseOf s who + n
     \<and> purchaseOf s who + n \<le> maxPurchase s
     \<and> totalPurchases s + n \<le> hardcap s"
  using assms
  unfolding escrowLimits_def Let_def config_def
  by (auto split: if_splits)

lemma escrowPayout_kept: "escrowPayout e who ptok fee rcp net s = Inr s' \<Longrightarrow> kept s s'"
  unfolding escrowPayout_def
  by (auto simp: andThen_Inr split: if_splits
      dest!: externIf_kept recordPaid_kept intro: kept_trans)


lemma purchaseWithEscrow_effect:
  assumes "purchaseWithEscrow e who pay ptok s = Inr (s', n)"
  shows "config s' = config s
     \<and> lockupTVLReached s' = lockupTVLReached s
     \<and> (\<forall>b. lockedBalanceOf s b \<le> lockedBalanceOf s' b)
     \<and> (lockupTVLReached s \<longrightarrow> lockedBalanceOf s' = lockedBalanceOf s)
     \<and> totalPurchases s' = totalPurchases s + n
     \<and> purchaseOf s' = (purchaseOf s)(who := purchaseOf s who + n)
     \<and> minPurchase s \<le> purchaseOf s who + n
     \<and> purchaseOf s who + n \<le> maxPurchase s
     \<and> totalPurchases s + n \<le> hardcap s"
proof -
  from assms obtain fee rcp s1 s2 s3 s4 where
    f: "calculatePlatformFee s e pay = Inr (fee, rcp)"
    and t: "escrowTokenAmount e pay ptok (pay - fee) s = Inr (s1, n)"
    and l: "escrowLimits who ptok (pay - fee) n s1 = Inr s2"
    and np: "noteParticipant who s2 = Inr s3"
    and po: "escrowPayout e who ptok fee rcp (pay - fee) s3 = Inr s4"
    and d: "distribute e who n s4 = Inr s'"
    by (auto simp: purchaseWithEscrow_def andThen_Inr Let_def split: if_splits prod.splits)
  show ?thesis
    using escrowTokenAmount_effect[OF t] escrowLimits_effect[OF l]
      noteParticipant_kept[OF np] escrowPayout_kept[OF po] distribute_effect[OF d]
    by (simp add: kept_def config_def)
qed

lemma unlock_effect:
  assumes "unlock e s = Inr s'"
  shows "config s' = config s \<and> totalPurchases s' = totalPurchases s
     \<and> purchaseOf s' = purchaseOf s \<and> lockupTVLReached s' = lockupTVLReached s
     \<and> lockedBalanceOf s' = (lockedBalanceOf s)(msg_sender e := 0)
     \<and> unlockAvailable s e = Inr True \<and> 0 < lockedBalanceOf s (msg_sender e)"
  using assms
  unfolding unlock_def Let_def
  by (auto simp: nonPayable_Inr nonReentrant_Inr andThen_Inr extern_def config_def split: if_splits)

lemma claimBackWith_effect:
  assumes "claimBackWith msg e cur s = Inr s'"
  shows "config s' = config s \<and> totalPurchases s' = totalPurchases s
     \<and> lockupTVLReached s' = lockupTVLReached s
     \<and> purchaseOf s' = (purchaseOf s)(msg_sender e := 0)
     \<and> lockedBalanceOf s' = (lockedBalanceOf s)(msg_sender e := 0)
     \<and> paidAmount s' = (paidAmount s)(msg_sender e := (paidAmount s (msg_sender e))(cur := 0))
     \<and> state s e = Inr Failed \<and> \<not> immediateTransfer s
     \<and> 0 < paidAmount s (msg_sender e) cur"
  using assms
  unfolding claimBackWith_def Let_def
  by (auto simp: nonPayable_Inr nonReentrant_Inr andThen_Inr extern_def config_def split: if_splits)

lemma onlyTenantManagerOrInitialOwner_Inr:
  "onlyTenantManagerOrInitialOwner e s body = Inr y \<longleftrightarrow> owner s = msg_sender e \<and> body s = Inr y"
  by (simp add: onlyTenantManagerOrInitialOwner_def)

lemma onlyOwner_Inr:
  "onlyOwner e s body = Inr y \<longleftrightarrow> owner s = msg_sender e \<and> body s = Inr y"
  by (simp add: onlyOwner_def)

lemma setServiceContract_kept: "setServiceContract e sc s = Inr s' \<Longrightarrow> kept s s'"
  by (auto simp: setServiceContract_def nonPayable_Inr kept_def config_def split: if_splits)

lemma mintReservedTokens_kept: "mintReservedTokens e s = Inr (s', b) \<Longrightarrow> kept s s'"
  by (auto simp: mintReservedTokens_def nonPayable_Inr onlyTenantManagerOrInitialOwner_Inr kept_def config_def
      split: if_splits)

lemma setTenantId_kept: "setTenantId e tid s = Inr s' \<Longrightarrow> kept s s'"
  by (auto simp: setTenantId_def nonPayable_Inr onlyTenantManagerOrInitialOwner_Inr kept_def config_def)

lemma transferFunds_kept: "transferFunds e cur s = Inr s' \<Longrightarrow> kept s s'"
  by (auto simp: transferFunds_def nonPayable_Inr onlyTenantManagerOrInitialOwner_Inr andThen_Inr Let_def
      split: if_splits dest: externIf_kept)

lemma pause_kept: "pause e s = Inr s' \<Longrightarrow> kept s s'"
  by (auto simp: pause_def nonPayable_Inr onlyTenantManagerOrInitialOwner_Inr kept_def config_def split: if_splits)

lemma unpause_kept: "unpause e s = Inr s' \<Longrightarrow> kept s s'"
  by (auto simp: unpause_def nonPayable_Inr onlyTenantManagerOrInitialOwner_Inr kept_def config_def split: if_splits)

lemma addToUserWhitelist_kept: "addToUserWhitelist e us s = Inr s' \<Longrightarrow> kept s s'"
  by (auto simp: addToUserWhitelist_def nonPayable_Inr onlyTenantManagerOrInitialOwner_Inr kept_def config_def
      split: if_splits prod.splits)

lemma removeFromUserWhitelist_kept: "removeFromUserWhitelist e us s = Inr s' \<Longrightarrow> kept s s'"
  by (auto simp: removeFromUserWhitelist_def nonPayable_Inr onlyTenantManagerOrInitialOwner_Inr kept_def config_def)

lemma addToTokenWhitelist_kept: "addToTokenWhitelist e us s = Inr s' \<Longrightarrow> kept s s'"
  by (auto simp: addToTokenWhitelist_def nonPayable_Inr onlyTenantManagerOrInitialOwner_Inr kept_def config_def
      split: if_splits prod.splits)

lemma removeFromTokenWhitelist_kept: "removeFromTokenWhitelist e us s = Inr s' \<Longrightarrow> kept s s'"
  by (auto simp: removeFromTokenWhitelist_def nonPayable_Inr onlyTenantManagerOrInitialOwner_Inr kept_def config_def)

lemma setReservedTokenAmount_kept: "setReservedTokenAmount e n s = Inr s' \<Longrightarrow> kept s s'"
  by (auto simp: setReservedTokenAmount_def nonPayable_Inr onlyOwner_Inr kept_def config_def)

lemma transferOwnership_kept: "transferOwnership e a s = Inr s' \<Longrightarrow> kept s s'"
  by (auto simp: transferOwnership_def nonPayable_Inr onlyOwner_Inr kept_def config_def split: if_splits)

lemma renounceOwnership_kept: "renounceOwnership e s = Inr s' \<Longrightarrow> kept s s'"
  by (auto simp: renounceOwnership_def nonPayable_Inr onlyOwner_Inr kept_def config_def)

lemma setLockupTVLReachedForced_effect:
  assumes "setLockupTVLReachedForced e force s = Inr s'"
  shows "s' = s\<lparr>lockupTVLReached := True\<rparr>"
  using assms
  by (auto simp: setLockupTVLReachedForced_def nonPayable_Inr onlyTenantManagerOrInitialOwner_Inr andThen_Inr
      split: if_splits)

lemma setLockupTVLReached_effect:
  assumes "setLockupTVLReached e s = Inr s'"
  shows "s' = s\<lparr>lockupTVLReached := True\<rparr>"
  using assms
  by (auto simp: setLockupTVLReached_def nonPayable_Inr onlyTenantManagerOrInitialOwner_Inr andThen_Inr
      split: if_splits)

lemma initialize_twice: "initialized s \<Longrightarrow> initialize e a b info tid sc imm s \<noteq> Inr s'"
  by (simp add: initialize_def nonPayable_def)

lemma step_cases:
  assumes "step e c s = Inr s'"
  shows "((\<forall>cur. c \<noteq> ClaimBack cur) \<and> c \<noteq> ClaimBackLegacy \<and> c \<noteq> Unlock
          \<and> (kept s s' \<or> s' = s\<lparr>lockupTVLReached := True\<rparr>))
    \<or> (\<exists>a b info tid sc imm. c = Initialize a b info tid sc imm
          \<and> initialize e a b info tid sc imm s = Inr s')
    \<or> (\<exists>cur n. c = Purchase cur n \<and> purchase e cur n s = Inr s')
    \<or> (\<exists>who pay ptok n. c = PurchaseWithEscrow who pay ptok
          \<and> purchaseWithEscrow e who pay ptok s = Inr (s', n))
    \<or> (c = Unlock \<and> unlock e s = Inr s')
    \<or> (\<exists>cur. c = ClaimBack cur
          \<and> claimBackWith ''No refund available for this currency'' e cur s = Inr s')
    \<or> (c = ClaimBackLegacy \<and> claimBackWith ''No ETH refund available'' e 0 s = Inr s')"
proof (cases c)
  case MintReservedTokens
  with assms show ?thesis
    by (auto simp: andThen_Inr dest: mintReservedTokens_kept)
next
  case (PurchaseWithEscrow who pay ptok)
  with assms show ?thesis
    by (auto simp: andThen_Inr)
next
  case (ClaimBack cur)
  with assms show ?thesis
    by (auto simp: claimBack_def)
next
  case ClaimBackLegacy
  with assms show ?thesis
    by (auto simp: claimBackLegacy_def)
qed (use assms in \<open>auto dest: setServiceContract_kept setTenantId_kept transferFunds_kept
      pause_kept unpause_kept addToUserWhitelist_kept removeFromUserWhitelist_kept
      addToTokenWhitelist_kept removeFromTokenWhitelist_kept setReservedTokenAmount_kept
      transferOwnership_kept renounceOwnership_kept setLockupTVLReachedForced_effect
      setLockupTVLReached_effect\<close>)

subsection \<open>Evaluating the scenarios\<close>

lemmas sale_defs = transact_def initialize_def initReserved_def andThen_def nonPayable_def nonReentrant_def
  deployed_def exampleInfo_def cooperative_def max_uint256_def Let_def exampleSale_def
  purchase_def purchasePayment_def purchaseLimits_def noteParticipant_def distribute_def
  deliver_def extern_def externIf_def recordPaid_def recordCurrencyTotal_def
  calculatePlatformFee_def feeLookup_def state_def maxPurchaseOf_def

lemma exampleSale_initialize:
  "initialize (cooperative 1 0 1000) 1 7 exampleInfo 0 0 False (deployed 99) = Inr exampleSale"
proof -
  have "\<exists>s. initialize (cooperative 1 0 1000) 1 7 exampleInfo 0 0 False (deployed 99) = Inr s"
    by (simp add: initialize_def nonPayable_def initReserved_def andThen_def deployed_def exampleInfo_def
        cooperative_def max_uint256_def Let_def)
  then show ?thesis
    by (auto simp: exampleSale_def transact_def)
qed

lemma step_transact: "\<exists>s'. step e c s = Inr s' \<Longrightarrow> step e c s = Inr (transact e c s)"
  by (auto simp: transact_def)

lemmas refund_defs = claimBack_def claimBackWith_def claimBackLegacy_def unlock_def
  unlockAvailable_def

lemma failedSale_claimBack:
  "step (cooperative 5 0 90000) (ClaimBack 0)
     (saleRun [(cooperative 5 60 2000, Purchase 0 60)] exampleSale)
   = Inr (saleRun [(cooperative 5 60 2000, Purchase 0 60),
                   (cooperative 5 0 90000, ClaimBack 0)] exampleSale)"
proof -
  have "\<exists>s'. step (cooperative 5 0 90000) (ClaimBack 0)
     (saleRun [(cooperative 5 60 2000, Purchase 0 60)] exampleSale) = Inr s'"
    by (simp add: sale_defs refund_defs)
  from step_transact[OF this] show ?thesis by simp
qed

lemmas escrow_purchase_defs = purchaseWithEscrow_def escrowGate_def escrowTokenAmount_def
  escrowLimits_def escrowPayout_def escrowSale_def

lemma initialize_transact:
  "\<exists>s'. initialize e a b info tid sc imm s = Inr s' \<Longrightarrow>
    initialize e a b info tid sc imm s = Inr (transact e (Initialize a b info tid sc imm) s)"
  by (auto simp: transact_def)

lemma openSale_initialize:
  "initialize (cooperative 1 0 1000) 1 7 (exampleInfo\<lparr>info_lockupTVL := 0\<rparr>) 0 88 False
     (deployed 99) = Inr openSale"
  unfolding openSale_def
  by (rule initialize_transact)
    (simp add: initialize_def nonPayable_def initReserved_def andThen_def deployed_def exampleInfo_def
      cooperative_def max_uint256_def Let_def)

lemmas whitelist_defs = addToUserWhitelist_def addToTokenWhitelist_def
  removeFromUserWhitelist_def removeFromTokenWhitelist_def MAX_WHITELIST_BATCH_def
  onlyTenantManagerOrInitialOwner_def

lemma openSale_purchase:
  "purchase (cooperative 5 100 2000) 0 100 openSale
    = Inr (saleRun [(cooperative 5 100 2000, Purchase 0 100)] openSale)"
proof -
  have "\<exists>s'. step (cooperative 5 100 2000) (Purchase 0 100) openSale = Inr s'"
    by (simp add: sale_defs openSale_def)
  from step_transact[OF this] show ?thesis by simp
qed

lemma openSale_escrow_purchase:
  "purchaseWithEscrow (cooperative 60 100 3000) 6 100 0
     (saleRun [(cooperative 5 100 2000, Purchase 0 100)] openSale)
    = Inr (saleRun [(cooperative 5 100 2000, Purchase 0 100),
                    (cooperative 60 100 3000, PurchaseWithEscrow 6 100 0)] openSale, 100)"
proof -
  have "\<exists>s'. purchaseWithEscrow (cooperative 60 100 3000) 6 100 0
     (saleRun [(cooperative 5 100 2000, Purchase 0 100)] openSale) = Inr (s', 100)"
    by (simp add: sale_defs escrow_purchase_defs openSale_def)
  then show ?thesis
    by (auto simp: transact_def andThen_def)
qed

subsection \<open>Caps\<close>

lemma initLoop_eq: "initLoop us (arr, flag) = (arr @ us, \<lambda>a. a \<in> set us \<or> flag a)"
  by (induction us arbitrary: arr flag) (auto simp: fun_eq_iff)

lemma initialize_effect:
  assumes "initialize e a b info tid sc imm s = Inr s'"
  shows "\<not> initialized s \<and> initialized s'
    \<and> totalPurchases s' = totalPurchases s \<and> purchaseOf s' = purchaseOf s
    \<and> lockedBalanceOf s' = lockedBalanceOf s
    \<and> lockupTVLReached s' = (info_lockupTVL info = 0)
    \<and> hardcap s' = info_hardcap info \<and> maxPurchase s' = info_maxPurchase info"
  using assms
  unfolding initialize_def initReserved_def Let_def
  by (auto simp: nonPayable_Inr andThen_Inr split: if_splits prod.splits)

lemma step_initialized:
  assumes "initialized s" and "step e c s = Inr s'"
  shows "initialized s'"
  using step_cases[OF assms(2)] assms(1)
  by (auto simp: kept_def config_def dest!: initialize_effect purchase_effect
      purchaseWithEscrow_effect unlock_effect claimBackWith_effect)

lemma step_limits:
  assumes "initialized s" and "step e c s = Inr s'"
    and "totalPurchases s \<le> hardcap s" and "\<forall>a. purchaseOf s a \<le> maxPurchase s"
  shows "totalPurchases s' \<le> hardcap s' \<and> (\<forall>a. purchaseOf s' a \<le> maxPurchase s')"
  using step_cases[OF assms(2)] assms(1,3,4)
  by (auto simp: kept_def config_def dest!: initialize_effect purchase_effect
      purchaseWithEscrow_effect unlock_effect claimBackWith_effect)

lemma transact_limits:
  assumes "initialized s \<and> totalPurchases s \<le> hardcap s \<and> (\<forall>a. purchaseOf s a \<le> maxPurchase s)"
  shows "initialized (transact e c s) \<and> totalPurchases (transact e c s) \<le> hardcap (transact e c s)
     \<and> (\<forall>a. purchaseOf (transact e c s) a \<le> maxPurchase (transact e c s))"
proof (cases "step e c s")
  case (Inl err)
  with assms show ?thesis by (simp add: transact_def)
next
  case (Inr s')
  with assms step_initialized[of s e c s'] step_limits[of s e c s'] show ?thesis
    by (simp add: transact_def)
qed

lemma saleRun_limits:
  assumes "initialized s \<and> totalPurchases s \<le> hardcap s \<and> (\<forall>a. purchaseOf s a \<le> maxPurchase s)"
  shows "totalPurchases (saleRun h s) \<le> hardcap (saleRun h s)
     \<and> (\<forall>a. purchaseOf (saleRun h s) a \<le> maxPurchase (saleRun h s))"
  using assms
proof (induction h arbitrary: s)
  case Nil
  then show ?case by simp
next
  case (Cons x h)
  obtain e c where x: "x = (e, c)" by (cases x)
  from Cons.prems have "initialized (transact e c s) \<and> totalPurchases (transact e c s) \<le> hardcap (transact e c s)
     \<and> (\<forall>a. purchaseOf (transact e c s) a \<le> maxPurchase (transact e c s))"
    by (rule transact_limits)
  from Cons.IH[OF this] show ?case by (simp add: x)
qed

text \<open>
  Claim C1. In every state that a history of calls leads to from a successful
  \<open>initialize\<close> of a fresh contract, the total of purchases is at most the hard cap and
  the purchase of every address is at most the maximum purchase.
\<close>

theorem purchase_limits_invariant:
  assumes "initialize e newOwner newToken info tid sc immediate (deployed x) = Inr s0"
  shows "totalPurchases (saleRun h s0) \<le> hardcap (saleRun h s0)
     \<and> (\<forall>a. purchaseOf (saleRun h s0) a \<le> maxPurchase (saleRun h s0))"
proof -
  from initialize_effect[OF assms]
  have "initialized s0 \<and> totalPurchases s0 \<le> hardcap s0 \<and> (\<forall>a. purchaseOf s0 a \<le> maxPurchase s0)"
    by (simp add: deployed_def)
  then show ?thesis by (rule saleRun_limits)
qed

text \<open>After a purchase of 100 tokens by address 5 in the example sale.\<close>

theorem purchase_limits_invariant_witness:
  "totalPurchases (saleRun [(cooperative 5 100 2000, Purchase 0 100)] exampleSale) = 100
   \<and> totalPurchases (saleRun [(cooperative 5 100 2000, Purchase 0 100)] exampleSale)
       \<le> hardcap (saleRun [(cooperative 5 100 2000, Purchase 0 100)] exampleSale)
   \<and> purchaseOf (saleRun [(cooperative 5 100 2000, Purchase 0 100)] exampleSale) 5
       \<le> maxPurchase (saleRun [(cooperative 5 100 2000, Purchase 0 100)] exampleSale)"
  using purchase_limits_invariant[OF exampleSale_initialize,
      of "[(cooperative 5 100 2000, Purchase 0 100)]"]
  by (simp add: sale_defs)

subsection \<open>Sale status\<close>

text \<open>
  Claim C5, as amended. \<open>state\<close> returns \<open>Successful\<close> whenever the total of purchases has
  reached the hard cap, at any time. Below the hard cap, and when \<open>createdAt + duration\<close>
  fits a \<open>uint256\<close>, it returns \<open>Active\<close> while the block time is strictly before
  \<open>createdAt + duration\<close>, and afterwards \<open>Successful\<close> if the soft cap is met and
  \<open>Failed\<close> if not. Below the hard cap, when \<open>createdAt + duration\<close> does not fit, the
  checked addition panics and the call reverts. The result depends on nothing but the
  block time and the five storage fields read, so it is computed anew by every call.
\<close>

theorem state_classification:
  "(hardcap s \<le> totalPurchases s \<longrightarrow> state s e = Inr Successful)
   \<and> (totalPurchases s < hardcap s \<and> createdAt s + duration s \<le> max_uint256 \<longrightarrow>
        state s e = Inr (if block_timestamp e < createdAt s + duration s then State.Active
                         else if softcap s \<le> totalPurchases s then Successful else Failed))
   \<and> (totalPurchases s < hardcap s \<and> max_uint256 < createdAt s + duration s \<longrightarrow>
        state s e = Inl Panic)
   \<and> (block_timestamp e' = block_timestamp e \<and> totalPurchases s' = totalPurchases s
        \<and> hardcap s' = hardcap s \<and> softcap s' = softcap s \<and> createdAt s' = createdAt s
        \<and> duration s' = duration s \<longrightarrow> state s' e' = state s e)"
  by (simp add: state_def)

text \<open>The example sale is active at time 2000 and has failed at time 90000.\<close>

theorem state_classification_witness:
  "totalPurchases exampleSale < hardcap exampleSale
   \<and> createdAt exampleSale + duration exampleSale \<le> max_uint256
   \<and> state exampleSale (cooperative 5 0 2000) = Inr State.Active
   \<and> state exampleSale (cooperative 5 0 90000) = Inr Failed"
  using state_classification[of exampleSale "cooperative 5 0 2000"]
    state_classification[of exampleSale "cooperative 5 0 90000"]
  by (simp add: sale_defs)

text \<open>
  A sale initialized with the largest duration: below its hard cap and before
  \<open>createdAt + duration\<close>, where the status should be \<open>Active\<close>, the call reverts.
\<close>

theorem state_overflow_counterexample:
  "totalPurchases overflowSale < hardcap overflowSale
   \<and> block_timestamp (cooperative 5 0 2000) < createdAt overflowSale + duration overflowSale
   \<and> state overflowSale (cooperative 5 0 2000) = Inl Panic"
  by (simp add: sale_defs overflowSale_def)

subsection \<open>The total of purchases\<close>

lemma claimBackWith_state:
  assumes "claimBackWith msg e cur s = Inr s'"
  shows "state s' e' = state s e'"
  using claimBackWith_effect[OF assms]
  by (simp add: state_def config_def)

text \<open>
  Claim C10. No call lowers \<open>totalPurchases\<close>. A successful \<open>claimBack\<close> (for a currency,
  or the legacy one for the native asset) leaves the caller with no recorded payment in
  that currency, no purchase and no locked balance, leaves \<open>totalPurchases\<close> as it was, and
  so does not change what \<open>state\<close> returns at any time.
\<close>

theorem totalPurchases_monotone:
  assumes "step e c s = Inr s'"
  shows "totalPurchases s \<le> totalPurchases s'
    \<and> (c = ClaimBack cur \<or> c = ClaimBackLegacy \<and> cur = 0 \<longrightarrow>
         paidAmount s' (msg_sender e) cur = 0 \<and> purchaseOf s' (msg_sender e) = 0
         \<and> lockedBalanceOf s' (msg_sender e) = 0 \<and> totalPurchases s' = totalPurchases s
         \<and> (\<forall>e'. state s' e' = state s e'))"
  using step_cases[OF assms]
  by (auto simp: kept_def dest!: initialize_effect
      purchase_effect purchaseWithEscrow_effect unlock_effect
      dest: claimBackWith_effect claimBackWith_state)

text \<open>
  In the example sale address 5 buys 60 tokens; the sale fails; the refund leaves the total
  at 60 and the status \<open>Failed\<close>.
\<close>

theorem totalPurchases_monotone_witness:
  "totalPurchases (saleRun [(cooperative 5 60 2000, Purchase 0 60)] exampleSale) = 60
   \<and> totalPurchases (saleRun [(cooperative 5 60 2000, Purchase 0 60),
                   (cooperative 5 0 90000, ClaimBack 0)] exampleSale) = 60
   \<and> purchaseOf (saleRun [(cooperative 5 60 2000, Purchase 0 60),
                   (cooperative 5 0 90000, ClaimBack 0)] exampleSale) 5 = 0
   \<and> state (saleRun [(cooperative 5 60 2000, Purchase 0 60),
                   (cooperative 5 0 90000, ClaimBack 0)] exampleSale) (cooperative 5 0 90000)
       = Inr Failed"
  using totalPurchases_monotone[OF failedSale_claimBack, of 0]
  by (simp add: sale_defs refund_defs)

subsection \<open>Locked balances\<close>

text \<open>
  Claim C6, as amended. A call that lowers the locked balance of an address is made by
  that address and clears the balance, and it is either \<open>unlock\<close>, when the lockup
  threshold flag is set and the block time has reached \<open>createdAt + lockupDuration\<close>, or
  a \<open>claimBack\<close>, when the sale has failed and is in vault mode.
\<close>

theorem locked_balance_decrease:
  assumes "step e c s = Inr s'" and "lockedBalanceOf s' a < lockedBalanceOf s a"
  shows "a = msg_sender e \<and> lockedBalanceOf s' a = 0
    \<and> (c = Unlock \<and> lockupTVLReached s \<and> createdAt s + lockupDuration s \<le> block_timestamp e
        \<or> ((\<exists>cur. c = ClaimBack cur) \<or> c = ClaimBackLegacy)
           \<and> state s e = Inr Failed \<and> \<not> immediateTransfer s)"
proof -
  have u: "unlock e s = Inr s' \<Longrightarrow> a = msg_sender e \<and> lockedBalanceOf s' a = 0
      \<and> lockupTVLReached s \<and> createdAt s + lockupDuration s \<le> block_timestamp e"
  proof -
    assume "unlock e s = Inr s'"
    from unlock_effect[OF this] assms(2) show ?thesis
      by (auto simp: unlockAvailable_def split: if_splits)
  qed
  have cb: "\<And>msg cur. claimBackWith msg e cur s = Inr s' \<Longrightarrow> a = msg_sender e
      \<and> lockedBalanceOf s' a = 0 \<and> state s e = Inr Failed \<and> \<not> immediateTransfer s"
  proof -
    fix msg cur
    assume "claimBackWith msg e cur s = Inr s'"
    from claimBackWith_effect[OF this] assms(2) show "a = msg_sender e
      \<and> lockedBalanceOf s' a = 0 \<and> state s e = Inr Failed \<and> \<not> immediateTransfer s"
      by (auto split: if_splits)
  qed
  from step_cases[OF assms(1)] consider
      (quiet) "kept s s' \<or> s' = s\<lparr>lockupTVLReached := True\<rparr>"
    | (init) a' b info tid sc imm where "initialize e a' b info tid sc imm s = Inr s'"
    | (buy) cur n where "purchase e cur n s = Inr s'"
    | (escrow) who pay ptok n where "purchaseWithEscrow e who pay ptok s = Inr (s', n)"
    | (unlock) "c = Unlock" "unlock e s = Inr s'"
    | (refund) msg cur where "(\<exists>cur. c = ClaimBack cur) \<or> c = ClaimBackLegacy"
        "claimBackWith msg e cur s = Inr s'"
    by blast
  then show ?thesis
  proof cases
    case quiet
    with assms(2) show ?thesis by (auto simp: kept_def)
  next
    case init
    from initialize_effect[OF this] assms(2) show ?thesis by simp
  next
    case buy
    from purchase_effect[OF this] assms(2) show ?thesis
      by (metis not_less)
  next
    case escrow
    from purchaseWithEscrow_effect[OF this] assms(2) show ?thesis
      by (metis not_less)
  next
    case unlock
    with u show ?thesis by blast
  next
    case refund
    with cb show ?thesis by blast
  qed
qed

text \<open>The refund of the failed example sale lowers the locked balance of address 5.\<close>

theorem locked_balance_decrease_witness:
  "lockedBalanceOf (saleRun [(cooperative 5 60 2000, Purchase 0 60),
                   (cooperative 5 0 90000, ClaimBack 0)] exampleSale) 5
     < lockedBalanceOf (saleRun [(cooperative 5 60 2000, Purchase 0 60)] exampleSale) 5
   \<and> state (saleRun [(cooperative 5 60 2000, Purchase 0 60)] exampleSale)
        (cooperative 5 0 90000) = Inr Failed"
  using locked_balance_decrease[OF failedSale_claimBack, of 5]
  by (simp add: sale_defs refund_defs)

text \<open>
  The locked balance of address 5 falls from 30 to 0 by a \<open>claimBack\<close>, a call other
  than \<open>unlock\<close>, while the lockup threshold flag is not set.
\<close>

theorem claimBack_clears_locked_counterexample:
  "lockedBalanceOf (saleRun [(cooperative 5 60 2000, Purchase 0 60)] exampleSale) 5 = 30
   \<and> lockedBalanceOf (saleRun [(cooperative 5 60 2000, Purchase 0 60),
                   (cooperative 5 0 90000, ClaimBack 0)] exampleSale) 5 = 0"
  by (simp add: sale_defs refund_defs)

subsection \<open>The calls a purchase makes\<close>

lemma tokensTo_deliveryCalls: "tokensTo tok a (deliveryCalls tok a n held) = n"
  by (simp add: deliveryCalls_def)

lemma extern_calls: "extern e c s = Inr s' \<Longrightarrow> calls s' = calls s @ [c]"
  by (auto simp: extern_def split: if_splits)

lemma externIf_calls: "externIf b e c s = Inr s' \<Longrightarrow> \<exists>l. calls s' = calls s @ l"
  by (cases b) (auto simp: externIf_def dest: extern_calls)

lemma recordPaid_calls: "recordPaid a cur n s = Inr s' \<Longrightarrow> calls s' = calls s"
  by (auto simp: recordPaid_def split: if_splits)

lemma recordCurrencyTotal_calls: "recordCurrencyTotal cur n s = Inr s' \<Longrightarrow> calls s' = calls s"
  by (auto simp: recordCurrencyTotal_def split: if_splits)

lemma noteParticipant_calls: "noteParticipant a s = Inr s' \<Longrightarrow> calls s' = calls s"
  by (auto simp: noteParticipant_def split: if_splits)

lemma purchaseLimits_calls: "purchaseLimits e n s = Inr s' \<Longrightarrow> calls s' = calls s"
  by (auto simp: purchaseLimits_def andThen_Inr split: if_splits)

lemma escrowLimits_calls: "escrowLimits who ptok net n s = Inr s' \<Longrightarrow> calls s' = calls s"
  by (auto simp: escrowLimits_def Let_def split: if_splits)

lemma purchasePayment_calls:
  "purchasePayment e cur n s = Inr s' \<Longrightarrow> \<exists>l. calls s' = calls s @ l"
  unfolding purchasePayment_def Let_def
  by (auto simp: andThen_Inr split: if_splits prod.splits
      dest!: externIf_calls extern_calls recordPaid_calls recordCurrencyTotal_calls)

lemma escrowTokenAmount_calls:
  "escrowTokenAmount e pay ptok net s = Inr (s', n) \<Longrightarrow> \<exists>l. calls s' = calls s @ l"
  unfolding escrowTokenAmount_def
  by (auto simp: andThen_Inr split: if_splits dest!: extern_calls)

lemma escrowPayout_calls:
  "escrowPayout e who ptok fee rcp net s = Inr s' \<Longrightarrow> \<exists>l. calls s' = calls s @ l"
  unfolding escrowPayout_def
  by (auto simp: andThen_Inr split: if_splits dest!: externIf_calls recordPaid_calls)

lemma deliver_calls:
  assumes "deliver e a n s = Inr s'"
  shows "calls s' = calls s @ deliveryCalls (token s) a n (balanceOf e (token s) (self s))"
  using assms
  unfolding deliver_def Let_def andThen_def externIf_def extern_def deliveryCalls_def
  by (auto split: if_splits option.splits bool.splits sum.splits)

text \<open>What \<open>distribute\<close> does with \<open>n\<close> tokens: \<open>u\<close> of them are handed over, the rest is locked.\<close>

lemma distribute_split:
  assumes "distribute e a n s = Inr s'"
  shows "\<exists>u \<le> n. (lockupTVLReached s \<longrightarrow> u = n)
     \<and> calls s' = calls s @ deliveryCalls (token s) a u (balanceOf e (token s) (self s))
     \<and> lockedBalanceOf s' = (lockedBalanceOf s)(a := lockedBalanceOf s a + (n - u))"
proof (cases "lockupTVLReached s")
  case True
  with assms have d: "deliver e a n s = Inr s'"
    by (simp add: distribute_def)
  from deliver_kept[OF d] deliver_calls[OF d] True show ?thesis
    by (intro exI[of _ n]) (simp add: kept_def)
next
  case False
  let ?u = "(n * (10000 - lockupPercent s)) div 10000"
  from assms False obtain s1 where d: "deliver e a ?u s = Inr s1"
    and r: "(n - ?u = 0 \<and> s' = s1) \<or> s' = s1\<lparr>lockedBalanceOf :=
                (lockedBalanceOf s1)(a := lockedBalanceOf s1 a + (n - ?u))\<rparr>"
    unfolding distribute_def Let_def andThen_def
    by (auto split: if_splits sum.splits)
  have le: "?u \<le> n"
  proof -
    have "n * (10000 - lockupPercent s) \<le> n * 10000" by simp
    then have "?u \<le> (n * 10000) div 10000" by (rule div_le_mono)
    then show ?thesis by simp
  qed
  from deliver_kept[OF d] have k: "lockedBalanceOf s1 = lockedBalanceOf s"
    by (simp add: kept_def)
  from r k deliver_calls[OF d] le False show ?thesis
    by (intro exI[of _ ?u]) auto
qed

lemma purchase_distribution:
  assumes "purchase e cur n s = Inr s'"
  shows "\<exists>pre u. u \<le> n \<and> (lockupTVLReached s \<longrightarrow> u = n)
     \<and> calls s' = calls s @ pre
          @ deliveryCalls (token s) (msg_sender e) u (balanceOf e (token s) (self s))
     \<and> lockedBalanceOf s' =
          (lockedBalanceOf s)(msg_sender e := lockedBalanceOf s (msg_sender e) + (n - u))"
proof -
  from assms obtain s1 s2 s3 where
    p: "purchasePayment e cur n s = Inr s1" and l: "purchaseLimits e n s1 = Inr s2"
    and np: "noteParticipant (msg_sender e) s2 = Inr s3"
    and d: "distribute e (msg_sender e) n s3 = Inr s'"
    by (auto simp: purchase_def nonReentrant_Inr andThen_Inr split: if_splits)
  from purchasePayment_calls[OF p] obtain pre where pre: "calls s1 = calls s @ pre" by blast
  from purchasePayment_kept[OF p] purchaseLimits_effect[OF l] noteParticipant_kept[OF np]
  have same: "token s3 = token s" "self s3 = self s" "lockedBalanceOf s3 = lockedBalanceOf s"
    "lockupTVLReached s3 = lockupTVLReached s"
    by (simp_all add: kept_def config_def)
  from pre purchaseLimits_calls[OF l] noteParticipant_calls[OF np]
  have c3: "calls s3 = calls s @ pre" by simp
  from distribute_split[OF d] same c3 show ?thesis
    by auto
qed

lemma purchaseWithEscrow_parts:
  assumes "purchaseWithEscrow e who pay ptok s = Inr (s', n)"
  obtains fee rcp s1 s2 s3 s4 where
    "escrowGate e ptok s = Inr ()"
    "calculatePlatformFee s e pay = Inr (fee, rcp)" "fee < pay"
    "escrowTokenAmount e pay ptok (pay - fee) s = Inr (s1, n)"
    "escrowLimits who ptok (pay - fee) n s1 = Inr s2"
    "noteParticipant who s2 = Inr s3"
    "escrowPayout e who ptok fee rcp (pay - fee) s3 = Inr s4"
    "distribute e who n s4 = Inr s'"
  using assms
  by (auto simp: purchaseWithEscrow_def andThen_Inr Let_def split: if_splits prod.splits)

lemma purchaseWithEscrow_distribution:
  assumes "purchaseWithEscrow e who pay ptok s = Inr (s', n)"
  shows "\<exists>pre u. u \<le> n \<and> (lockupTVLReached s \<longrightarrow> u = n)
     \<and> calls s' = calls s @ pre
          @ deliveryCalls (token s) who u (balanceOf e (token s) (self s))
     \<and> lockedBalanceOf s' = (lockedBalanceOf s)(who := lockedBalanceOf s who + (n - u))"
proof -
  from assms obtain fee rcp s1 s2 s3 s4 where
    t: "escrowTokenAmount e pay ptok (pay - fee) s = Inr (s1, n)"
    and l: "escrowLimits who ptok (pay - fee) n s1 = Inr s2"
    and np: "noteParticipant who s2 = Inr s3"
    and po: "escrowPayout e who ptok fee rcp (pay - fee) s3 = Inr s4"
    and d: "distribute e who n s4 = Inr s'"
    by (rule purchaseWithEscrow_parts)
  from escrowTokenAmount_calls[OF t] obtain l1 where l1: "calls s1 = calls s @ l1" by blast
  from escrowPayout_calls[OF po] obtain l2 where l2: "calls s4 = calls s3 @ l2" by blast
  from escrowTokenAmount_effect[OF t] escrowLimits_effect[OF l] noteParticipant_kept[OF np]
    escrowPayout_kept[OF po]
  have same: "token s4 = token s" "self s4 = self s" "lockedBalanceOf s4 = lockedBalanceOf s"
    "lockupTVLReached s4 = lockupTVLReached s"
    by (simp_all add: kept_def config_def)
  from l1 l2 escrowLimits_calls[OF l] noteParticipant_calls[OF np]
  have c4: "calls s4 = calls s @ (l1 @ l2)" by simp
  from distribute_split[OF d] same c4 show ?thesis
    by (metis append.assoc)
qed

text \<open>
  The number of tokens that the calls of a purchase move to the buyer: the payment calls
  move none of the sale's token to anybody, the payout of an escrow purchase moves none
  unless the payment currency is the sale's own token, and the delivery moves the unlocked
  amount.
\<close>

lemma tokensTo_append:
  "tokensTo tok a (xs @ ys) = tokensTo tok a xs + tokensTo tok a ys"
  by (induction tok a xs rule: tokensTo.induct) simp_all

lemma extern_tokens:
  "extern e c s = Inr s' \<Longrightarrow>
     tokensTo tok a (calls s') = tokensTo tok a (calls s) + tokensTo tok a [c]"
  by (auto simp: extern_def tokensTo_append split: if_splits)

lemma externIf_tokens:
  "externIf b e c s = Inr s' \<Longrightarrow>
     tokensTo tok a (calls s') = tokensTo tok a (calls s) \<or>
     tokensTo tok a (calls s') = tokensTo tok a (calls s) + tokensTo tok a [c]"
  by (cases b) (auto simp: externIf_def dest: extern_tokens)

lemma purchasePayment_tokens:
  "purchasePayment e cur n s = Inr s' \<Longrightarrow> tokensTo tok a (calls s') = tokensTo tok a (calls s)"
  unfolding purchasePayment_def Let_def
  by (auto simp: andThen_Inr split: if_splits prod.splits
      dest!: externIf_tokens[where tok = tok and a = a] extern_tokens[where tok = tok and a = a]
        recordPaid_calls recordCurrencyTotal_calls)

lemma escrowTokenAmount_tokens:
  "escrowTokenAmount e pay ptok net s = Inr (s', n) \<Longrightarrow>
     tokensTo tok a (calls s') = tokensTo tok a (calls s)"
  unfolding escrowTokenAmount_def
  by (auto simp: andThen_Inr split: if_splits dest!: extern_tokens[where tok = tok and a = a])

lemma escrowPayout_tokens:
  assumes "escrowPayout e who ptok fee rcp net s = Inr s'"
  shows "tokensTo tok a (calls s) \<le> tokensTo tok a (calls s')
     \<and> (ptok \<noteq> tok \<longrightarrow> tokensTo tok a (calls s') = tokensTo tok a (calls s))"
  using assms
  unfolding escrowPayout_def
  by (auto simp: andThen_Inr split: if_splits
      dest!: externIf_tokens[where tok = tok and a = a] recordPaid_calls)

lemma distribute_tokens:
  assumes "distribute e a n s = Inr s'" and "lockupTVLReached s"
  shows "tokensTo (token s) a (calls s') = tokensTo (token s) a (calls s) + n"
  using distribute_split[OF assms(1)] assms(2)
  by (auto simp: tokensTo_append tokensTo_deliveryCalls)

lemma purchase_tokens:
  assumes "purchase e cur n s = Inr s'" and "lockupTVLReached s"
  shows "tokensTo (token s) (msg_sender e) (calls s')
     = tokensTo (token s) (msg_sender e) (calls s) + n"
proof -
  from assms(1) obtain s1 s2 s3 where
    p: "purchasePayment e cur n s = Inr s1" and l: "purchaseLimits e n s1 = Inr s2"
    and np: "noteParticipant (msg_sender e) s2 = Inr s3"
    and d: "distribute e (msg_sender e) n s3 = Inr s'"
    by (auto simp: purchase_def nonReentrant_Inr andThen_Inr split: if_splits)
  from purchasePayment_kept[OF p] purchaseLimits_effect[OF l] noteParticipant_kept[OF np] assms(2)
  have same: "token s3 = token s" "lockupTVLReached s3"
    by (simp_all add: kept_def config_def)
  from purchasePayment_tokens[OF p] purchaseLimits_calls[OF l] noteParticipant_calls[OF np]
  have "tokensTo (token s) (msg_sender e) (calls s3) = tokensTo (token s) (msg_sender e) (calls s)"
    by simp
  with distribute_tokens[OF d same(2)] same(1) show ?thesis by simp
qed

lemma purchaseWithEscrow_tokens:
  assumes "purchaseWithEscrow e who pay ptok s = Inr (s', n)" and "lockupTVLReached s"
  shows "tokensTo (token s) who (calls s) + n \<le> tokensTo (token s) who (calls s')
     \<and> (ptok \<noteq> token s \<longrightarrow>
          tokensTo (token s) who (calls s') = tokensTo (token s) who (calls s) + n)"
proof -
  from assms(1) obtain fee rcp s1 s2 s3 s4 where
    t: "escrowTokenAmount e pay ptok (pay - fee) s = Inr (s1, n)"
    and l: "escrowLimits who ptok (pay - fee) n s1 = Inr s2"
    and np: "noteParticipant who s2 = Inr s3"
    and po: "escrowPayout e who ptok fee rcp (pay - fee) s3 = Inr s4"
    and d: "distribute e who n s4 = Inr s'"
    by (rule purchaseWithEscrow_parts)
  from escrowTokenAmount_effect[OF t] escrowLimits_effect[OF l] noteParticipant_kept[OF np]
    escrowPayout_kept[OF po] assms(2)
  have same: "token s4 = token s" "lockupTVLReached s4"
    by (simp_all add: kept_def config_def)
  from escrowTokenAmount_tokens[OF t] escrowLimits_calls[OF l] noteParticipant_calls[OF np]
  have c3: "tokensTo (token s) who (calls s3) = tokensTo (token s) who (calls s)"
    by simp
  from distribute_tokens[OF d same(2)] same(1)
  have c5: "tokensTo (token s) who (calls s') = tokensTo (token s) who (calls s4) + n"
    by simp
  from escrowPayout_tokens[OF po, of "token s" who] c3 c5 show ?thesis
    by auto
qed

subsection \<open>Purchase through an escrow: amounts\<close>

text \<open>
  Claim C3. A successful \<open>purchaseWithEscrow\<close> of a gross payment has resolved a fee,
  its net payment (payment minus fee) is positive, and the tokens sold are
  \<open>netPayment * 1e18 / price\<close>, rounded down: that amount is returned, added to the total and
  to the purchase of the investor, and split between tokens handed to the investor and
  tokens locked for the investor. When the fee leaves nothing of the payment the call
  reverts; when the fee equals the payment and the entry checks pass, it reverts with the
  message of the net-payment check.
\<close>

theorem escrow_purchase_amount:
  "(purchaseWithEscrow e who pay ptok s = Inr (s', n) \<longrightarrow>
      (\<exists>fee rcp. calculatePlatformFee s e pay = Inr (fee, rcp) \<and> 0 < pay - fee
         \<and> n = ((pay - fee) * 10 ^ 18) div price s
         \<and> purchaseOf s' who = purchaseOf s who + n
         \<and> totalPurchases s' = totalPurchases s + n
         \<and> (\<exists>pre u. u \<le> n
               \<and> calls s' = calls s @ pre
                    @ deliveryCalls (token s) who u (balanceOf e (token s) (self s))
               \<and> lockedBalanceOf s' who = lockedBalanceOf s who + (n - u))))
   \<and> (calculatePlatformFee s e pay = Inr (fee, rcp) \<and> pay - fee = 0 \<longrightarrow>
        isl (purchaseWithEscrow e who pay ptok s))
   \<and> (escrowGate e ptok s = Inr () \<and> calculatePlatformFee s e pay = Inr (pay, rcp) \<longrightarrow>
        purchaseWithEscrow e who pay ptok s
          = Inl (Revert ''Net payment is zero after fee deduction''))"
proof (intro conjI impI)
  assume a: "purchaseWithEscrow e who pay ptok s = Inr (s', n)"
  from a obtain fee rcp s1 where
    f: "calculatePlatformFee s e pay = Inr (fee, rcp)" and lt: "fee < pay"
    and t: "escrowTokenAmount e pay ptok (pay - fee) s = Inr (s1, n)"
    by (rule purchaseWithEscrow_parts)
  from purchaseWithEscrow_distribution[OF a] obtain pre u where
    "u \<le> n" "calls s' = calls s @ pre
          @ deliveryCalls (token s) who u (balanceOf e (token s) (self s))"
    "lockedBalanceOf s' = (lockedBalanceOf s)(who := lockedBalanceOf s who + (n - u))"
    by blast
  with f lt escrowTokenAmount_effect[OF t] purchaseWithEscrow_effect[OF a]
  show "\<exists>fee rcp. calculatePlatformFee s e pay = Inr (fee, rcp) \<and> 0 < pay - fee
         \<and> n = ((pay - fee) * 10 ^ 18) div price s
         \<and> purchaseOf s' who = purchaseOf s who + n
         \<and> totalPurchases s' = totalPurchases s + n
         \<and> (\<exists>pre u. u \<le> n
               \<and> calls s' = calls s @ pre
                    @ deliveryCalls (token s) who u (balanceOf e (token s) (self s))
               \<and> lockedBalanceOf s' who = lockedBalanceOf s who + (n - u))"
    by (intro exI[of _ fee] exI[of _ rcp] conjI exI[of _ pre] exI[of _ u]) simp_all
next
  assume "calculatePlatformFee s e pay = Inr (fee, rcp) \<and> pay - fee = 0"
  then show "isl (purchaseWithEscrow e who pay ptok s)"
    by (cases "escrowGate e ptok s") (auto simp: purchaseWithEscrow_def andThen_def)
next
  assume "escrowGate e ptok s = Inr () \<and> calculatePlatformFee s e pay = Inr (pay, rcp)"
  then show "purchaseWithEscrow e who pay ptok s
          = Inl (Revert ''Net payment is zero after fee deduction'')"
    by (simp add: purchaseWithEscrow_def andThen_def)
qed

text \<open>
  An escrow pays 200 for investor 5 with a fee of 250 basis points: the fee is 5 and 195
  tokens are sold.
\<close>

theorem escrow_purchase_amount_witness:
  "calculatePlatformFee escrowSale (withFee (cooperative 60 200 2000)) 200 = Inr (5, 9)
   \<and> map_sum id snd (purchaseWithEscrow (withFee (cooperative 60 200 2000)) 5 200 0 escrowSale)
       = Inr 195"
proof -
  have "\<exists>s' n. purchaseWithEscrow (withFee (cooperative 60 200 2000)) 5 200 0 escrowSale
      = Inr (s', n)"
    by (simp add: sale_defs escrow_purchase_defs withFee_def)
  then obtain s' n where
    r: "purchaseWithEscrow (withFee (cooperative 60 200 2000)) 5 200 0 escrowSale = Inr (s', n)"
    by blast
  have f: "calculatePlatformFee escrowSale (withFee (cooperative 60 200 2000)) 200 = Inr (5, 9)"
    by (simp add: sale_defs escrow_purchase_defs withFee_def)
  have p: "price escrowSale = 10 ^ 18"
    by (simp add: sale_defs escrow_purchase_defs)
  from escrow_purchase_amount[of "withFee (cooperative 60 200 2000)" 5 200 0 escrowSale s' n] r f p
  have "n = 195" by simp
  with r f show ?thesis by simp
qed

subsection \<open>Purchase limits of the two paths\<close>

lemma purchaseLimits_minimum_per_call:
  "n < minPurchase s \<Longrightarrow> purchaseLimits e n s = Inl (Revert ''Below min purchase'')"
  by (simp add: purchaseLimits_def)

text \<open>
  When the limits fit a \<open>uint256\<close>, the checks of the direct purchase pass exactly when
  the amount of the call reaches the minimum, the cumulative purchase stays within the
  maximum and the new total within the hard cap; those of the escrow purchase pass exactly
  when the cumulative purchase lies between the minimum and the maximum and the new total
  is within the hard cap.
\<close>

lemma purchaseLimits_exact:
  assumes "hardcap s \<le> max_uint256" and "maxPurchase s \<le> max_uint256"
    and "purchaseOf s (msg_sender e) \<le> maxPurchase s"
  shows "(\<exists>s'. purchaseLimits e n s = Inr s') \<longleftrightarrow>
     minPurchase s \<le> n \<and> purchaseOf s (msg_sender e) + n \<le> maxPurchase s
     \<and> totalPurchases s + n \<le> hardcap s"
  using assms
  by (auto simp: purchaseLimits_def maxPurchaseOf_def andThen_def)

lemma escrowLimits_exact:
  assumes "hardcap s \<le> max_uint256" and "maxPurchase s \<le> max_uint256"
    and "totalPurchasesInCurrency s ptok + net \<le> max_uint256"
  shows "(\<exists>s'. escrowLimits who ptok net n s = Inr s') \<longleftrightarrow>
     minPurchase s \<le> purchaseOf s who + n \<and> purchaseOf s who + n \<le> maxPurchase s
     \<and> totalPurchases s + n \<le> hardcap s"
  using assms
  by (auto simp: escrowLimits_def Let_def)

text \<open>A call that reverts changes nothing: neither the ledger nor the log of calls.\<close>

lemma revert_is_atomic: "step e c s = Inl err \<Longrightarrow> transact e c s = s"
  by (simp add: transact_def)

lemma escrowLimits_minimum_cumulative:
  "purchaseOf s who + n \<le> max_uint256 \<Longrightarrow> purchaseOf s who + n < minPurchase s \<Longrightarrow>
     escrowLimits who ptok net n s = Inl (Revert ''Below minimum purchase'')"
  by (simp add: escrowLimits_def)

text \<open>
  Claim C4, at the input where the code departs from it. Address 5 has bought 100 tokens
  (minimum 50, maximum 500, hard cap 1000) and buys 10 more, so that every cumulative
  amount is within its limit. The direct purchase reverts with the message of the minimum
  check, which compares the amount of the call; the purchase of the same 10 tokens through
  an escrow, which compares the cumulative amount, succeeds.
\<close>

theorem direct_purchase_minimum_per_call:
  "purchaseOf (saleRun [(cooperative 5 100 2000, Purchase 0 100)] escrowSale) 5 = 100
   \<and> totalPurchases (saleRun [(cooperative 5 100 2000, Purchase 0 100)] escrowSale) = 100
   \<and> minPurchase (saleRun [(cooperative 5 100 2000, Purchase 0 100)] escrowSale) = 50
   \<and> maxPurchase (saleRun [(cooperative 5 100 2000, Purchase 0 100)] escrowSale) = 500
   \<and> hardcap (saleRun [(cooperative 5 100 2000, Purchase 0 100)] escrowSale) = 1000
   \<and> purchase (cooperative 5 10 3000) 0 10
        (saleRun [(cooperative 5 100 2000, Purchase 0 100)] escrowSale)
       = Inl (Revert ''Below min purchase'')
   \<and> map_sum id snd (purchaseWithEscrow (cooperative 60 10 3000) 5 10 0
        (saleRun [(cooperative 5 100 2000, Purchase 0 100)] escrowSale)) = Inr 10"
  by (simp add: sale_defs escrow_purchase_defs)

subsection \<open>Whitelist batches\<close>

lemma whitelist_add_capped:
  "MAX_WHITELIST_BATCH < length us \<Longrightarrow>
     isl (addToUserWhitelist e us s) \<and> isl (addToTokenWhitelist e us s)"
  by (simp add: nonPayable_def addToUserWhitelist_def addToTokenWhitelist_def
      onlyTenantManagerOrInitialOwner_def)

lemma whitelist_remove_uncapped:
  "owner s = msg_sender e \<Longrightarrow> msg_value e = 0 \<Longrightarrow>
     \<not> isl (removeFromUserWhitelist e us s) \<and> \<not> isl (removeFromTokenWhitelist e us s)"
  by (simp add: nonPayable_def removeFromUserWhitelist_def removeFromTokenWhitelist_def
      onlyTenantManagerOrInitialOwner_def)

text \<open>
  Claim C8, at the input where the code departs from it. For a batch of 101 addresses the
  two add functions revert with the batch-size message, and the two remove functions, which
  have no such check, succeed.
\<close>

theorem whitelist_removal_unbounded:
  "length [1..<102] = 101 \<and> MAX_WHITELIST_BATCH = 100
   \<and> addToUserWhitelist (cooperative 1 0 2000) [1..<102] exampleSale
       = Inl (Revert ''Batch size exceeds limit'')
   \<and> addToTokenWhitelist (cooperative 1 0 2000) [1..<102] exampleSale
       = Inl (Revert ''Batch size exceeds limit'')
   \<and> \<not> isl (removeFromUserWhitelist (cooperative 1 0 2000) [1..<102] exampleSale)
   \<and> \<not> isl (removeFromTokenWhitelist (cooperative 1 0 2000) [1..<102] exampleSale)"
  by (simp add: sale_defs whitelist_defs)

subsection \<open>A lockup threshold of zero\<close>

lemma step_reached:
  assumes "initialized s \<and> lockupTVLReached s \<and> (\<forall>a. lockedBalanceOf s a = 0)"
    and "step e c s = Inr s'"
  shows "initialized s' \<and> lockupTVLReached s' \<and> (\<forall>a. lockedBalanceOf s' a = 0)"
  using step_cases[OF assms(2)] assms(1)
  by (auto simp: kept_def config_def dest!: initialize_effect purchase_effect
      purchaseWithEscrow_effect unlock_effect claimBackWith_effect)

lemma saleRun_reached:
  assumes "initialized s \<and> lockupTVLReached s \<and> (\<forall>a. lockedBalanceOf s a = 0)"
  shows "initialized (saleRun h s) \<and> lockupTVLReached (saleRun h s)
     \<and> (\<forall>a. lockedBalanceOf (saleRun h s) a = 0)"
  using assms
proof (induction h arbitrary: s)
  case Nil
  then show ?case by simp
next
  case (Cons x h)
  obtain e c where x: "x = (e, c)" by (cases x)
  have "initialized (transact e c s) \<and> lockupTVLReached (transact e c s)
     \<and> (\<forall>a. lockedBalanceOf (transact e c s) a = 0)"
  proof (cases "step e c s")
    case (Inl err)
    with Cons.prems show ?thesis by (simp add: transact_def)
  next
    case (Inr s')
    with step_reached[OF Cons.prems Inr] show ?thesis by (simp add: transact_def)
  qed
  from Cons.IH[OF this] show ?case by (simp add: x)
qed

text \<open>
  Claim C9. When the sale is initialized with a lockup threshold of zero, then after any
  history of calls the threshold flag is set and no address has a locked balance; and
  every successful purchase of \<open>n\<close> tokens, direct or through an escrow, credits
  \<open>n\<close> to the buyer's purchases, ends with the calls that hand all \<open>n\<close> tokens to the
  buyer (transfer of what the contract holds, mint of the rest), raises the number of
  tokens that the calls of the sale have moved to the buyer by \<open>n\<close> (for an escrow
  purchase paid in the sale's own token, by at least \<open>n\<close>: the payout of the payment may
  go to the buyer too), and leaves every locked balance at zero, whatever the lockup
  percentage.
\<close>

theorem zero_threshold_never_locks:
  assumes "initialize e0 newOwner newToken info tid sc immediate (deployed x) = Inr s0"
    and "info_lockupTVL info = 0" and "s = saleRun h s0"
  shows "lockupTVLReached s \<and> (\<forall>a. lockedBalanceOf s a = 0)
    \<and> (purchase e cur n s = Inr s' \<longrightarrow>
         purchaseOf s' (msg_sender e) = purchaseOf s (msg_sender e) + n
         \<and> (\<exists>pre. calls s' = calls s @ pre
              @ deliveryCalls (token s) (msg_sender e) n (balanceOf e (token s) (self s)))
         \<and> tokensTo (token s) (msg_sender e) (calls s')
             = tokensTo (token s) (msg_sender e) (calls s) + n
         \<and> (\<forall>a. lockedBalanceOf s' a = 0))
    \<and> (purchaseWithEscrow e who pay ptok s = Inr (s', n) \<longrightarrow>
         purchaseOf s' who = purchaseOf s who + n
         \<and> (\<exists>pre. calls s' = calls s @ pre
              @ deliveryCalls (token s) who n (balanceOf e (token s) (self s)))
         \<and> tokensTo (token s) who (calls s) + n \<le> tokensTo (token s) who (calls s')
         \<and> (ptok \<noteq> token s \<longrightarrow>
              tokensTo (token s) who (calls s') = tokensTo (token s) who (calls s) + n)
         \<and> (\<forall>a. lockedBalanceOf s' a = 0))"
proof -
  from initialize_effect[OF assms(1)] assms(2)
  have "initialized s0 \<and> lockupTVLReached s0 \<and> (\<forall>a. lockedBalanceOf s0 a = 0)"
    by (simp add: deployed_def)
  from saleRun_reached[OF this, of h] assms(3)
  have inv: "lockupTVLReached s" "\<forall>a. lockedBalanceOf s a = 0"
    by simp_all
  have buy: "purchaseOf s' (msg_sender e) = purchaseOf s (msg_sender e) + n
         \<and> (\<exists>pre. calls s' = calls s @ pre
            @ deliveryCalls (token s) (msg_sender e) n (balanceOf e (token s) (self s)))
         \<and> tokensTo (token s) (msg_sender e) (calls s')
             = tokensTo (token s) (msg_sender e) (calls s) + n
         \<and> (\<forall>a. lockedBalanceOf s' a = 0)" if "purchase e cur n s = Inr s'"
    using purchase_distribution[OF that] purchase_tokens[OF that inv(1)]
      purchase_effect[OF that] inv by auto
  have esc: "purchaseOf s' who = purchaseOf s who + n
         \<and> (\<exists>pre. calls s' = calls s @ pre
            @ deliveryCalls (token s) who n (balanceOf e (token s) (self s)))
         \<and> tokensTo (token s) who (calls s) + n \<le> tokensTo (token s) who (calls s')
         \<and> (ptok \<noteq> token s \<longrightarrow>
              tokensTo (token s) who (calls s') = tokensTo (token s) who (calls s) + n)
         \<and> (\<forall>a. lockedBalanceOf s' a = 0)"
    if "purchaseWithEscrow e who pay ptok s = Inr (s', n)"
    using purchaseWithEscrow_distribution[OF that] purchaseWithEscrow_tokens[OF that inv(1)]
      purchaseWithEscrow_effect[OF that] inv by auto
  from inv buy esc show ?thesis
    by blast
qed

text \<open>
  With a lockup of 50 percent and a threshold of zero, a direct purchase of 100 tokens by
  address 5 mints all 100 to the buyer and locks nothing; then the escrow at address 60
  pays 100 for investor 6, and the sale mints all 100 tokens to the investor and locks
  nothing.
\<close>

theorem zero_threshold_never_locks_witness:
  "lockupPercent openSale = 5000 \<and> lockupTVLReached openSale
   \<and> purchase (cooperative 5 100 2000) 0 100 openSale
       = Inr (saleRun [(cooperative 5 100 2000, Purchase 0 100)] openSale)
   \<and> calls (saleRun [(cooperative 5 100 2000, Purchase 0 100)] openSale) = [TokenMint 7 5 100]
   \<and> lockedBalanceOf (saleRun [(cooperative 5 100 2000, Purchase 0 100)] openSale) 5 = 0
   \<and> purchaseWithEscrow (cooperative 60 100 3000) 6 100 0
       (saleRun [(cooperative 5 100 2000, Purchase 0 100)] openSale)
       = Inr (saleRun [(cooperative 5 100 2000, Purchase 0 100),
                       (cooperative 60 100 3000, PurchaseWithEscrow 6 100 0)] openSale, 100)
   \<and> calls (saleRun [(cooperative 5 100 2000, Purchase 0 100),
                     (cooperative 60 100 3000, PurchaseWithEscrow 6 100 0)] openSale)
       = [TokenMint 7 5 100, TokenMint 7 6 100]
   \<and> tokensTo 7 6 (calls (saleRun [(cooperative 5 100 2000, Purchase 0 100),
                     (cooperative 60 100 3000, PurchaseWithEscrow 6 100 0)] openSale)) = 100
   \<and> lockedBalanceOf (saleRun [(cooperative 5 100 2000, Purchase 0 100),
                     (cooperative 60 100 3000, PurchaseWithEscrow 6 100 0)] openSale) 6 = 0"
  using zero_threshold_never_locks[OF openSale_initialize, of openSale "[]",
      of "cooperative 5 100 2000" 0 100
         "saleRun [(cooperative 5 100 2000, Purchase 0 100)] openSale"]
    zero_threshold_never_locks[OF openSale_initialize,
      of "saleRun [(cooperative 5 100 2000, Purchase 0 100)] openSale"
         "[(cooperative 5 100 2000, Purchase 0 100)]"
         "cooperative 60 100 3000" _ 100
         "saleRun [(cooperative 5 100 2000, Purchase 0 100),
                   (cooperative 60 100 3000, PurchaseWithEscrow 6 100 0)] openSale"
         6 100 0]
    openSale_purchase openSale_escrow_purchase
  by (simp add: sale_defs escrow_purchase_defs openSale_def)

section \<open>Properties of the InvestmentEscrow\<close>

subsection \<open>What each call does to the amounts\<close>

lemma exampleEscrow_constructor:
  "constructor (cooperative 3 0 1000) 60 5 99 0 = Inr exampleEscrow"
  by (simp add: constructor_def nonPayable_def exampleEscrow_def cooperative_def max_uint256_def
      MAX_ESCROW_DURATION_def ADMIN_ACTION_DEADLINE_def)

lemma onlyAdmin_Inr:
  "onlyAdmin e s body = Inr y \<longleftrightarrow> isAdmin e (msg_sender e) = Some True \<and> body s = Inr y"
  by (auto simp: onlyAdmin_def split: option.splits bool.splits)

lemma refundTo_effect:
  assumes "refundTo e a n s = Inr s'"
  shows "0 < n \<and> n \<le> balance s
    \<and> call_ok e (if paymentToken s = 0 then SendValue a n else Erc20Transfer (paymentToken s) a n)
    \<and> s' = s\<lparr>balance := balance s - n,
              sent := sent s @ [if paymentToken s = 0 then SendValue a n
                                else Erc20Transfer (paymentToken s) a n]\<rparr>"
  using assms
  by (auto simp: refundTo_def split: if_splits)

lemma executePurchase_effect:
  assumes "executePurchase e n s = Inr s'"
  shows "status s' = Status.Executed \<and> amount s' = amount s
    \<and> approvedAmount s' = approvedAmount s \<and> refundedAmount s' = refundedAmount s
    \<and> paymentToken s' = paymentToken s \<and> investor s' = investor s"
  using assms
  by (auto simp: executePurchase_def split: if_splits option.splits)

lemma deposit_settled: "settled s \<Longrightarrow> deposit e n s = Inr s' \<Longrightarrow> settled s'"
  by (auto simp: deposit_def nonReentrant_Inr settled_def split: if_splits)

lemma approveAndExecute_settled:
  "settled s \<Longrightarrow> approveAndExecute e s = Inr s' \<Longrightarrow> settled s'"
  by (auto simp: approveAndExecute_def nonPayable_Inr nonReentrant_Inr onlyAdmin_Inr settled_def split: if_splits
      dest!: executePurchase_effect)

lemma partialApproveAndExecute_settled:
  "settled s \<Longrightarrow> partialApproveAndExecute e n s = Inr s' \<Longrightarrow> settled s'"
  by (auto simp: partialApproveAndExecute_def nonPayable_Inr nonReentrant_Inr onlyAdmin_Inr andThen_Inr settled_def
      split: if_splits dest!: executePurchase_effect refundTo_effect)

lemma rejectAndRefund_settled:
  "settled s \<Longrightarrow> rejectAndRefund e r s = Inr s' \<Longrightarrow> settled s'"
  by (auto simp: rejectAndRefund_def nonPayable_Inr nonReentrant_Inr onlyAdmin_Inr settled_def split: if_splits
      dest!: refundTo_effect)

lemma refund_settled: "settled s \<Longrightarrow> refund e s = Inr s' \<Longrightarrow> settled s'"
  by (cases "status s") (auto simp: refund_def nonPayable_Inr nonReentrant_Inr canRefund_def Let_def settled_def split: if_splits
      dest!: refundTo_effect)

lemma receive_settled: "settled s \<Longrightarrow> receive e s = Inr s' \<Longrightarrow> settled s'"
  by (auto simp: receive_def settled_def split: if_splits)

lemma escrowStep_settled:
  assumes "settled s" and "c \<noteq> EmergencyWithdraw" and "escrowStep e c s = Inr s'"
  shows "settled s'"
proof (cases c)
  case (TokenArrived n)
  with assms show ?thesis by (auto simp: settled_def split: if_splits)
qed (use assms in \<open>auto dest: deposit_settled approveAndExecute_settled
      partialApproveAndExecute_settled rejectAndRefund_settled refund_settled receive_settled\<close>)

lemma escrowRun_settled:
  assumes "settled s" and "\<forall>(e, c) \<in> set h. c \<noteq> EmergencyWithdraw"
  shows "settled (escrowRun h s)"
  using assms
proof (induction h arbitrary: s)
  case Nil
  then show ?case by simp
next
  case (Cons x h)
  obtain e c where x: "x = (e, c)" by (cases x)
  with Cons.prems have c: "c \<noteq> EmergencyWithdraw" by simp
  have "settled (case escrowStep e c s of Inl _ \<Rightarrow> s | Inr s' \<Rightarrow> s')"
    using Cons.prems(1) c escrowStep_settled[of s c e]
    by (cases "escrowStep e c s") auto
  with Cons.IH[of "case escrowStep e c s of Inl _ \<Rightarrow> s | Inr s' \<Rightarrow> s'"] Cons.prems(2) x
  show ?case by simp
qed

lemma emergencyWithdraw_effect:
  assumes "emergencyWithdraw e s = Inr s'"
  shows "status s \<noteq> Status.Refunded \<and> status s \<noteq> Status.Executed
    \<and> status s' = Status.Refunded \<and> refundedAmount s' = balance s
    \<and> approvedAmount s' = approvedAmount s \<and> amount s' = amount s"
  using assms
  by (auto simp: emergencyWithdraw_def nonPayable_Inr nonReentrant_Inr onlyAdmin_Inr getBalance_def Let_def split: if_splits
      dest!: refundTo_effect)

lemma escrowStep_unapproved:
  assumes "unapproved s" and "escrowStep e c s = Inr s'"
  shows "unapproved s'"
proof (cases c)
  case (Deposit n)
  with assms show ?thesis by (auto simp: deposit_def nonReentrant_Inr unapproved_def split: if_splits)
next
  case ApproveAndExecute
  with assms show ?thesis
    by (auto simp: approveAndExecute_def nonPayable_Inr nonReentrant_Inr onlyAdmin_Inr unapproved_def split: if_splits
        dest!: executePurchase_effect)
next
  case (PartialApproveAndExecute n)
  with assms show ?thesis
    by (auto simp: partialApproveAndExecute_def nonPayable_Inr nonReentrant_Inr onlyAdmin_Inr andThen_Inr unapproved_def
        split: if_splits dest!: executePurchase_effect refundTo_effect)
next
  case (RejectAndRefund r)
  with assms show ?thesis
    by (auto simp: rejectAndRefund_def nonPayable_Inr nonReentrant_Inr onlyAdmin_Inr unapproved_def split: if_splits
        dest!: refundTo_effect)
next
  case Refund
  with assms show ?thesis
    by (cases "status s")
      (auto simp: refund_def nonPayable_Inr nonReentrant_Inr canRefund_def Let_def unapproved_def split: if_splits
        dest!: refundTo_effect)
next
  case EmergencyWithdraw
  with assms emergencyWithdraw_effect[of e s s'] show ?thesis
    by (auto simp: unapproved_def)
next
  case Receive
  with assms show ?thesis by (auto simp: receive_def unapproved_def split: if_splits)
next
  case (TokenArrived n)
  with assms show ?thesis by (auto simp: unapproved_def split: if_splits)
qed

lemma escrowRun_unapproved:
  assumes "unapproved s"
  shows "unapproved (escrowRun h s)"
  using assms
proof (induction h arbitrary: s)
  case Nil
  then show ?case by simp
next
  case (Cons x h)
  obtain e c where x: "x = (e, c)" by (cases x)
  have "unapproved (case escrowStep e c s of Inl _ \<Rightarrow> s | Inr s' \<Rightarrow> s')"
    using Cons.prems escrowStep_unapproved[of s e c]
    by (cases "escrowStep e c s") auto
  from Cons.IH[OF this] x show ?case by simp
qed

lemma constructor_settled:
  assumes "constructor e x i ts p = Inr s"
  shows "settled s \<and> unapproved s"
  using assms
  by (auto simp: constructor_def nonPayable_Inr settled_def unapproved_def split: if_splits)

lemmas escrow_defs = nonPayable_def nonReentrant_def deposit_def refundTo_def executePurchase_def
  approveAndExecute_def
  partialApproveAndExecute_def rejectAndRefund_def canRefund_def refund_def
  emergencyWithdraw_def receive_def onlyAdmin_def getBalance_def andThen_def Let_def
  exampleEscrow_def cooperative_def

subsection \<open>Approved plus refunded\<close>

text \<open>
  Claim C2, as amended. For an escrow built by the constructor and any history of calls
  to it: if the history has no emergency withdrawal and the escrow is in a terminal status
  (\<open>Rejected\<close>, \<open>Executed\<close>, \<open>Refunded\<close> or \<open>Expired\<close>), then the approved and the
  refunded amount add up to the deposit. A successful emergency withdrawal leaves the
  status \<open>Refunded\<close>, an approved amount of zero and the deposit as it was, and records
  as refunded the whole balance it sweeps.
\<close>

theorem escrow_settlement:
  assumes "constructor e0 x i ts p = Inr s0" and "s = escrowRun h s0"
  shows "((\<forall>(e, c) \<in> set h. c \<noteq> EmergencyWithdraw) \<and> terminal (status s) \<longrightarrow>
           approvedAmount s + refundedAmount s = amount s)
    \<and> (emergencyWithdraw e s = Inr s' \<longrightarrow>
           status s' = Status.Refunded \<and> refundedAmount s' = balance s
           \<and> approvedAmount s' = 0 \<and> amount s' = amount s)"
proof -
  have first: "approvedAmount s + refundedAmount s = amount s"
    if a: "(\<forall>(e, c) \<in> set h. c \<noteq> EmergencyWithdraw) \<and> terminal (status s)"
  proof -
    from a constructor_settled[OF assms(1)] escrowRun_settled[of s0 h] assms(2)
    have "settled s" by simp
    with a show ?thesis
      by (auto simp: settled_def terminal_def)
  qed
  have second: "status s' = Status.Refunded \<and> refundedAmount s' = balance s
           \<and> approvedAmount s' = 0 \<and> amount s' = amount s"
    if w: "emergencyWithdraw e s = Inr s'"
  proof -
    from constructor_settled[OF assms(1)] escrowRun_unapproved[of s0 h] assms(2)
    have "unapproved s" by simp
    with emergencyWithdraw_effect[OF w] show ?thesis
      by (simp add: unapproved_def)
  qed
  from first second show ?thesis by blast
qed

text \<open>A deposit of 100 of which 60 are approved: 40 are refunded and the escrow is executed.\<close>

theorem escrow_settlement_witness:
  "status (escrowRun [(cooperative 5 100 2000, Deposit 0),
                      (cooperative 2 0 3000, PartialApproveAndExecute 60)] exampleEscrow)
     = Status.Executed
   \<and> approvedAmount (escrowRun [(cooperative 5 100 2000, Deposit 0),
                      (cooperative 2 0 3000, PartialApproveAndExecute 60)] exampleEscrow) = 60
   \<and> refundedAmount (escrowRun [(cooperative 5 100 2000, Deposit 0),
                      (cooperative 2 0 3000, PartialApproveAndExecute 60)] exampleEscrow) = 40
   \<and> amount (escrowRun [(cooperative 5 100 2000, Deposit 0),
                      (cooperative 2 0 3000, PartialApproveAndExecute 60)] exampleEscrow) = 100"
  using escrow_settlement[OF exampleEscrow_constructor refl,
      of "[(cooperative 5 100 2000, Deposit 0),
           (cooperative 2 0 3000, PartialApproveAndExecute 60)]"]
  by (simp add: escrow_defs terminal_def)

text \<open>
  A deposit of 100, then 50 sent to the escrow by a third party, then an emergency
  withdrawal: the escrow is \<open>Refunded\<close> with nothing approved and 150 refunded.
\<close>

theorem emergency_sweep_counterexample:
  "terminal (status (escrowRun [(cooperative 5 100 2000, Deposit 0),
                      (cooperative 8 50 3000, Receive),
                      (cooperative 2 0 4000, EmergencyWithdraw)] exampleEscrow))
   \<and> amount (escrowRun [(cooperative 5 100 2000, Deposit 0),
                      (cooperative 8 50 3000, Receive),
                      (cooperative 2 0 4000, EmergencyWithdraw)] exampleEscrow) = 100
   \<and> approvedAmount (escrowRun [(cooperative 5 100 2000, Deposit 0),
                      (cooperative 8 50 3000, Receive),
                      (cooperative 2 0 4000, EmergencyWithdraw)] exampleEscrow) = 0
   \<and> refundedAmount (escrowRun [(cooperative 5 100 2000, Deposit 0),
                      (cooperative 8 50 3000, Receive),
                      (cooperative 2 0 4000, EmergencyWithdraw)] exampleEscrow) = 150"
  by (simp add: escrow_defs terminal_def)

subsection \<open>Refund\<close>

text \<open>
  Claim C7, as amended. \<open>refund\<close> succeeds exactly when the call carries no value (the
  function is not payable) and does not re-enter the escrow (the function is guarded),
  \<open>canRefund\<close> holds, the deposit is not zero, the escrow holds
  at least the deposit and the transfer of the deposit to the investor succeeds; then the
  whole deposit goes to the investor, it is recorded as refunded, and the status becomes
  \<open>Expired\<close> if it was \<open>Active\<close> and \<open>Refunded\<close> otherwise, so for a \<open>Rejected\<close>
  escrow. \<open>canRefund\<close> is false in the statuses \<open>Refunded\<close>, \<open>Executed\<close> and
  \<open>Expired\<close>; otherwise it is true when the status is \<open>Rejected\<close>, when the expiration
  time has passed, or when the escrow is \<open>Active\<close>, funded and past the admin deadline,
  and false in every other case.
\<close>

theorem refund_characterization:
  "(refund e s = Inr s' \<longleftrightarrow>
      msg_value e = 0 \<and> \<not> reentrant e \<and> canRefund s e \<and> 0 < amount s
      \<and> amount s \<le> balance s \<and> call_ok e (refundCall s)
      \<and> s' = s\<lparr>status := (if status s = Status.Active then Status.Expired
                            else Status.Refunded),
                refundedAmount := amount s, balance := balance s - amount s,
                sent := sent s @ [refundCall s]\<rparr>)
   \<and> (canRefund s e \<longleftrightarrow>
        status s \<noteq> Status.Refunded \<and> status s \<noteq> Status.Executed \<and> status s \<noteq> Status.Expired
        \<and> (status s = Status.Rejected \<or> expirationTime s \<le> block_timestamp e
            \<or> status s = Status.Active \<and> 0 < amount s \<and> adminDeadline s \<le> block_timestamp e))
   \<and> (refund e s = Inr s' \<and> status s = Status.Rejected \<longrightarrow> status s' = Status.Refunded)"
proof -
  have c: "canRefund s e \<longleftrightarrow>
        status s \<noteq> Status.Refunded \<and> status s \<noteq> Status.Executed \<and> status s \<noteq> Status.Expired
        \<and> (status s = Status.Rejected \<or> expirationTime s \<le> block_timestamp e
            \<or> status s = Status.Active \<and> 0 < amount s \<and> adminDeadline s \<le> block_timestamp e)"
    by (auto simp: canRefund_def)
  have r: "refund e s = Inr s' \<longleftrightarrow>
      msg_value e = 0 \<and> \<not> reentrant e \<and> canRefund s e \<and> 0 < amount s
      \<and> amount s \<le> balance s \<and> call_ok e (refundCall s)
      \<and> s' = s\<lparr>status := (if status s = Status.Active then Status.Expired
                            else Status.Refunded),
                refundedAmount := amount s, balance := balance s - amount s,
                sent := sent s @ [refundCall s]\<rparr>"
    by (auto simp: refund_def nonPayable_def nonReentrant_def refundTo_def refundCall_def Let_def)
  from r have "refund e s = Inr s' \<and> status s = Status.Rejected \<longrightarrow> status s' = Status.Refunded"
    by auto
  with c r show ?thesis by blast
qed

text \<open>
  A deposit of 100 on which the admin does not act: at the admin deadline anyone can call
  \<open>refund\<close>, the investor gets the 100 and the status is \<open>Expired\<close>.
\<close>

theorem refund_characterization_witness:
  "canRefund (escrowRun [(cooperative 5 100 2000, Deposit 0)] exampleEscrow)
      (cooperative 8 0 1210600)
   \<and> status (escrowRun [(cooperative 5 100 2000, Deposit 0),
                        (cooperative 8 0 1210600, Refund)] exampleEscrow) = Status.Expired
   \<and> sent (escrowRun [(cooperative 5 100 2000, Deposit 0),
                      (cooperative 8 0 1210600, Refund)] exampleEscrow) = [SendValue 5 100]"
  using refund_characterization[of "cooperative 8 0 1210600"
      "escrowRun [(cooperative 5 100 2000, Deposit 0)] exampleEscrow"
      "escrowRun [(cooperative 5 100 2000, Deposit 0),
                  (cooperative 8 0 1210600, Refund)] exampleEscrow"]
  by (simp add: escrow_defs refundCall_def)

text \<open>
  An escrow that was never funded, at its expiration time: \<open>canRefund\<close> holds and
  \<open>refund\<close> reverts.
\<close>

theorem refund_unfunded_counterexample:
  "canRefund exampleEscrow (cooperative 5 0 2593000)
   \<and> refund (cooperative 5 0 2593000) exampleEscrow = Inl (Revert ''Nothing to refund'')"
  by (simp add: escrow_defs)

end
